theory Spec2Isabelle
  imports Main "HOL-Library.AList" "HOL-Library.Char_ord" "HOL-Library.List_Lexorder"
    "HOL-Library.Sublist" "HOL-Library.Multiset"
begin

section \<open>Python values, exceptions and dictionaries\<close>

text \<open>
  The widgets handle dynamically typed values: attribute values, choice values and
  labels are \<open>None\<close>, booleans, integers, plain strings or strings the framework has
  marked safe (\<open>SafeText\<close>). A raised exception is a value of \<open>py_error\<close>, returned
  on the left of a sum.
\<close>

datatype pyval = PyNone | PyBool bool | PyInt int | PyStr string | SafeText string

datatype py_error = KeyError | IndexError | TypeError | ValueError | AttributeError

text \<open>
  A \<open>dict\<close> is an association list in insertion order. \<open>d[k] = v\<close> replaces the value
  of a key that is present where it stands and appends a new key, which is what
  \<open>AList.update\<close> does; \<open>d[k]\<close> raises \<open>KeyError\<close> on a missing key.
\<close>

type_synonym ('k, 'v) dict = "('k \<times> 'v) list"

definition dict_getitem :: "('k, 'v) dict \<Rightarrow> 'k \<Rightarrow> py_error + 'v" where
  "dict_getitem d k = (case map_of d k of None \<Rightarrow> Inl KeyError | Some v \<Rightarrow> Inr v)"

definition dict_setitem :: "('k, 'v) dict \<Rightarrow> 'k \<Rightarrow> 'v \<Rightarrow> ('k, 'v) dict" where
  "dict_setitem d k v = AList.update k v d"

definition dict_get :: "('k, 'v) dict \<Rightarrow> 'k \<Rightarrow> 'v \<Rightarrow> 'v" where
  "dict_get d k dflt = (case map_of d k of None \<Rightarrow> dflt | Some v \<Rightarrow> v)"

definition dict_contains :: "('k, 'v) dict \<Rightarrow> 'k \<Rightarrow> bool" where
  "dict_contains d k = (map_of d k \<noteq> None)"

definition dict_keys :: "('k, 'v) dict \<Rightarrow> 'k list" where
  "dict_keys d = map fst d"

text \<open>\<open>d.update(e)\<close>: the items of \<open>e\<close> are stored into \<open>d\<close> one by one, in order.\<close>

fun dict_update :: "('k, 'v) dict \<Rightarrow> ('k, 'v) dict \<Rightarrow> ('k, 'v) dict" where
  "dict_update d [] = d"
| "dict_update d ((k, v) # e) = dict_update (dict_setitem d k v) e"

text \<open>
  \<open>xs[i]\<close> on a list: a negative index counts from the end, and an index outside the
  list raises \<open>IndexError\<close>.
\<close>

definition list_getitem :: "'a list \<Rightarrow> int \<Rightarrow> py_error + 'a" where
  "list_getitem xs i =
     (if 0 \<le> i \<and> i < int (length xs) then Inr (xs ! nat i)
      else if i < 0 \<and> - int (length xs) \<le> i then Inr (xs ! nat (int (length xs) + i))
      else Inl IndexError)"

text \<open>Sequencing: the first exception raised ends the computation.\<close>

definition bind_err :: "py_error + 'a \<Rightarrow> ('a \<Rightarrow> py_error + 'b) \<Rightarrow> py_error + 'b" where
  "bind_err m f = (case m of Inl e \<Rightarrow> Inl e | Inr x \<Rightarrow> f x)"

section \<open>Strings and string formatting\<close>

text \<open>
  \<open>str(n)\<close> of an integer: its decimal digits, with a minus sign when negative.
\<close>

definition digit_char :: "nat \<Rightarrow> char" where
  "digit_char n = char_of (48 + n)"

function str_of_nat :: "nat \<Rightarrow> string" where
  "str_of_nat n =
     (if n < 10 then [digit_char n] else str_of_nat (n div 10) @ [digit_char (n mod 10)])"
  by pat_completeness auto
termination
  by (relation "measure id") auto

declare str_of_nat.simps [simp del]

definition str_of_int :: "int \<Rightarrow> string" where
  "str_of_int i = (if i < 0 then CHR ''-'' # str_of_nat (nat (- i)) else str_of_nat (nat i))"

text \<open>
  \<open>py_str\<close> is \<open>str(v)\<close>, what \<open>%s\<close> and \<open>{0}\<close> put into a string; \<open>truthy\<close> is
  the truth value Python gives a value in \<open>if\<close>, \<open>or\<close> and \<open>not\<close>. \<open>force_text\<close> (also
  imported as \<open>force_unicode\<close>) returns a string as it is, a safe string still safe,
  and the \<open>str\<close> of anything else.
\<close>

fun py_str :: "pyval \<Rightarrow> string" where
  "py_str PyNone = ''None''"
| "py_str (PyBool b) = (if b then ''True'' else ''False'')"
| "py_str (PyInt i) = str_of_int i"
| "py_str (PyStr s) = s"
| "py_str (SafeText s) = s"

fun truthy :: "pyval \<Rightarrow> bool" where
  "truthy PyNone = False"
| "truthy (PyBool b) = b"
| "truthy (PyInt i) = (i \<noteq> 0)"
| "truthy (PyStr s) = (s \<noteq> [])"
| "truthy (SafeText s) = (s \<noteq> [])"

fun force_text :: "pyval \<Rightarrow> pyval" where
  "force_text (PyStr s) = PyStr s"
| "force_text (SafeText s) = SafeText s"
| "force_text v = PyStr (py_str v)"

definition mark_safe :: "string \<Rightarrow> pyval" where
  "mark_safe s = SafeText s"

text \<open>\<open>sep.join(xs)\<close>.\<close>

fun str_join :: "string \<Rightarrow> string list \<Rightarrow> string" where
  "str_join sep [] = []"
| "str_join sep [x] = x"
| "str_join sep (x # y # ys) = x @ sep @ str_join sep (y # ys)"

text \<open>
  \<open>s.replace(old, new)\<close>: every occurrence of \<open>old\<close>, found from the left and not
  overlapping, becomes \<open>new\<close>. With an empty \<open>old\<close> Python puts \<open>new\<close> before every
  character and at the end.
\<close>

function str_replace :: "string \<Rightarrow> string \<Rightarrow> string \<Rightarrow> string" where
  "str_replace old new [] = (if old = [] then new else [])"
| "str_replace old new (c # cs) =
     (if old = [] then new @ c # str_replace old new cs
      else if prefix old (c # cs) then new @ str_replace old new (drop (length old) (c # cs))
      else c # str_replace old new cs)"
  by pat_completeness auto
termination
  by (relation "measure (\<lambda>(old, new, s). length s)") auto

text \<open>
  \<open>fmt.format(*args)\<close>, for the replacement fields the source uses: \<open>{}\<close>, numbered
  automatically from 0, and \<open>{n}\<close> with one decimal digit. A field past the arguments
  raises \<open>IndexError\<close>. Everything else a format string can hold (a lone brace, a
  doubled brace, a name, a conversion, a format spec) is not used by the source and is
  \<open>ValueError\<close> here.
\<close>

definition digit_val :: "char \<Rightarrow> nat option" where
  "digit_val c =
     (if CHR ''0'' \<le> c \<and> c \<le> CHR ''9'' then Some (of_char c - 48) else None)"

fun str_format_from :: "nat \<Rightarrow> string \<Rightarrow> string list \<Rightarrow> py_error + string" where
  "str_format_from k [] args = Inr []"
| "str_format_from k (c # cs) args =
     (if c = CHR ''{'' then
        (case cs of
           [] \<Rightarrow> Inl ValueError
         | d # rest \<Rightarrow>
             if d = CHR ''}'' then
               (if k < length args
                then map_sum id ((@) (args ! k)) (str_format_from (Suc k) rest args)
                else Inl IndexError)
             else
               (case rest of
                  [] \<Rightarrow> Inl ValueError
                | e # rest' \<Rightarrow>
                    (case digit_val d of
                       None \<Rightarrow> Inl ValueError
                     | Some n \<Rightarrow>
                         if e \<noteq> CHR ''}'' then Inl ValueError
                         else if n < length args
                         then map_sum id ((@) (args ! n)) (str_format_from k rest' args)
                         else Inl IndexError)))
      else if c = CHR ''}'' then Inl ValueError
      else map_sum id ((#) c) (str_format_from k cs args))"

definition str_format :: "string \<Rightarrow> string list \<Rightarrow> py_error + string" where
  "str_format fmt args = str_format_from 0 fmt args"

text \<open>
  \<open>fmt % args\<close>, for the conversions the source uses: \<open>%s\<close> takes the next argument
  (already a string, by \<open>py_str\<close>) and \<open>%%\<close> is a percent sign. Too few arguments, and
  arguments left over, raise \<open>TypeError\<close>; any other conversion is not used by the
  source and is \<open>ValueError\<close> here.
\<close>

fun pct_format :: "string \<Rightarrow> string list \<Rightarrow> py_error + string" where
  "pct_format [] args = (if args = [] then Inr [] else Inl TypeError)"
| "pct_format (c # cs) args =
     (if c = CHR ''%'' then
        (case cs of
           [] \<Rightarrow> Inl ValueError
         | d # rest \<Rightarrow>
             if d = CHR ''s'' then
               (case args of
                  [] \<Rightarrow> Inl TypeError
                | a # as \<Rightarrow> map_sum id ((@) a) (pct_format rest as))
             else if d = CHR ''%'' then map_sum id ((#) CHR ''%'') (pct_format rest args)
             else Inl ValueError)
      else map_sum id ((#) c) (pct_format cs args))"

section \<open>The host framework: django.utils.html and django.utils.safestring\<close>

text \<open>
  The widgets call the framework's escaping helpers. They are not part of this
  repository; they are written here as the framework's 1.x series documents and
  implements them (the series the module is written against: it imports
  \<open>django.utils.six\<close> and \<open>ugettext\<close>).
  \<^item> \<open>escape(text)\<close> is \<open>force_text(text)\<close> with \<open>&\<close>, \<open><\<close>, \<open>>\<close>, the double quote
    and the single quote replaced, in this order, by \<open>&amp;\<close>, \<open>&lt;\<close>, \<open>&gt;\<close>,
    \<open>&quot;\<close> and \<open>&#39;\<close>; the result is marked safe.
  \<^item> \<open>conditional_escape(text)\<close> returns a safe string as it is and escapes
    everything else.
  \<^item> \<open>format_html(fmt, *args)\<close> passes every argument through
    \<open>conditional_escape\<close>, formats with \<open>str.format\<close> and marks the result safe.
  \<^item> \<open>format_html_join(sep, fmt, args_generator)\<close> applies \<open>format_html\<close> to each
    argument tuple and joins the results with \<open>conditional_escape(sep)\<close>.
\<close>

definition escape :: "pyval \<Rightarrow> pyval" where
  \<open>escape text =
     mark_safe
       (str_replace [CHR 0x27] ''&#39;''
         (str_replace ''"'' ''&quot;''
           (str_replace ''>'' ''&gt;''
             (str_replace ''<'' ''&lt;''
               (str_replace ''&'' ''&amp;'' (py_str (force_text text)))))))\<close>

fun conditional_escape :: "pyval \<Rightarrow> pyval" where
  "conditional_escape (SafeText s) = SafeText s"
| "conditional_escape v = escape v"

definition format_html :: "string \<Rightarrow> pyval list \<Rightarrow> py_error + pyval" where
  "format_html format_string args =
     bind_err (str_format format_string (map (\<lambda>a. py_str (conditional_escape a)) args))
       (\<lambda>s. Inr (mark_safe s))"

fun map_err :: "('a \<Rightarrow> py_error + 'b) \<Rightarrow> 'a list \<Rightarrow> py_error + 'b list" where
  "map_err f [] = Inr []"
| "map_err f (x # xs) =
     bind_err (f x) (\<lambda>y. bind_err (map_err f xs) (\<lambda>ys. Inr (y # ys)))"

definition format_html_join :: "pyval \<Rightarrow> string \<Rightarrow> pyval list list \<Rightarrow> py_error + pyval" where
  "format_html_join sep format_string args_generator =
     bind_err (map_err (format_html format_string) args_generator)
       (\<lambda>parts. Inr (mark_safe (str_join (py_str (conditional_escape sep)) (map py_str parts))))"

section \<open>plugins/utils.py: get_context_dict\<close>

text \<open>
  The argument is a \<open>RequestContext\<close> (whose \<open>dicts\<close> is the list of its layered
  scopes), a plain dict, or any other object. The result is again an object: the dict
  that was built, or the argument as it came.
\<close>

datatype ('k, 'v, 'o) context_obj =
    RequestContext "('k, 'v) dict list"
  | Dict "('k, 'v) dict"
  | Other 'o

text \<open>The inner loop \<open>for t in i: ctx[t] = i[t]\<close>, over the keys of the layer \<open>i\<close>.\<close>

fun copy_layer :: "('k, 'v) dict \<Rightarrow> 'k list \<Rightarrow> ('k, 'v) dict \<Rightarrow> py_error + ('k, 'v) dict" where
  "copy_layer i [] ctx = Inr ctx"
| "copy_layer i (t # ts) ctx =
     bind_err (dict_getitem i t) (\<lambda>v. copy_layer i ts (dict_setitem ctx t v))"

text \<open>The outer loop \<open>for i in context.dicts\<close>.\<close>

fun copy_layers :: "('k, 'v) dict list \<Rightarrow> ('k, 'v) dict \<Rightarrow> py_error + ('k, 'v) dict" where
  "copy_layers [] ctx = Inr ctx"
| "copy_layers (i # ds) ctx =
     bind_err (copy_layer i (dict_keys i) ctx) (\<lambda>ctx'. copy_layers ds ctx')"

definition get_context_dict :: "('k, 'v, 'o) context_obj \<Rightarrow> py_error + ('k, 'v, 'o) context_obj" where
  "get_context_dict context =
     (case context of
        RequestContext ds \<Rightarrow> bind_err (copy_layers ds []) (\<lambda>ctx. Inr (Dict ctx))
      | _ \<Rightarrow> Inr context)"

text \<open>
  What the specification asks of the flat dict, in its own words: a key is looked up in
  the layers, and where several layers hold it the later layer wins.
\<close>

fun layered_lookup :: "('k, 'v) dict list \<Rightarrow> 'k \<Rightarrow> 'v option" where
  "layered_lookup [] k = None"
| "layered_lookup (d # ds) k =
     (case layered_lookup ds k of Some v \<Rightarrow> Some v | None \<Rightarrow> map_of d k)"

section \<open>widgets.py\<close>

subsection \<open>flatatt\<close>

text \<open>
  An attribute dict has strings as keys. \<open>attrs.items()\<close> are its (key, value) pairs;
  \<open>sorted\<close> compares pairs by the key first, and no two pairs of a dict have the same
  key, so the pairs come out in ascending order of their keys, strings being compared
  character by character.
\<close>

type_synonym attrs = "(string, pyval) dict"

definition sorted_items :: "attrs \<Rightarrow> (string \<times> pyval) list" where
  "sorted_items attrs = sort_key fst attrs"

definition flatatt :: "attrs \<Rightarrow> py_error + pyval" where
  \<open>flatatt attrs =
     format_html_join (PyStr '''') '' {0}="{1}"''
       (map (\<lambda>(k, v). [PyStr k, v]) (sorted_items attrs))\<close>

text \<open>
  The claim about \<open>flatatt\<close> in its own words: one fragment per entry, a space,
  the key, \<open>="\<close>, the value and a closing quote, in ascending key order.
\<close>

definition flatatt_as_claimed :: "attrs \<Rightarrow> string" where
  \<open>flatatt_as_claimed attrs =
     concat (map (\<lambda>(k, v). '' '' @ k @ ''="'' @ py_str v @ ''"'') (sorted_items attrs))\<close>

text \<open>What the code emits for one entry: key and value conditionally escaped.\<close>

definition flatatt_fragment :: "string \<times> pyval \<Rightarrow> string" where
  \<open>flatatt_fragment kv =
     '' '' @ py_str (conditional_escape (PyStr (fst kv))) @ ''="''
       @ py_str (conditional_escape (snd kv)) @ ''"''\<close>

subsection \<open>Constructors of the admin widgets\<close>

text \<open>
  Each constructor builds \<open>final_attrs\<close> from its defaults, updates it with the
  caller's \<open>attrs\<close> unless that is \<open>None\<close>, and hands it to the constructor of the
  framework's base class, \<open>super_init\<close> here. The functions \<open>*_final_attrs\<close> are the
  value of the local variable \<open>final_attrs\<close> at that call.
\<close>

definition AdminDateWidget_final_attrs :: "attrs option \<Rightarrow> attrs" where
  "AdminDateWidget_final_attrs attrs =
     (let final_attrs = [(''class'', PyStr ''date-field''), (''size'', PyStr ''10'')]
      in case attrs of None \<Rightarrow> final_attrs | Some a \<Rightarrow> dict_update final_attrs a)"

definition AdminDateWidget_init :: "(attrs \<Rightarrow> 'f \<Rightarrow> 'w) \<Rightarrow> attrs option \<Rightarrow> 'f \<Rightarrow> 'w" where
  "AdminDateWidget_init super_init attrs format =
     super_init (AdminDateWidget_final_attrs attrs) format"

definition AdminTimeWidget_final_attrs :: "attrs option \<Rightarrow> attrs" where
  "AdminTimeWidget_final_attrs attrs =
     (let final_attrs = [(''class'', PyStr ''time-field''), (''size'', PyStr ''8'')]
      in case attrs of None \<Rightarrow> final_attrs | Some a \<Rightarrow> dict_update final_attrs a)"

definition AdminTimeWidget_init :: "(attrs \<Rightarrow> 'f \<Rightarrow> 'w) \<Rightarrow> attrs option \<Rightarrow> 'f \<Rightarrow> 'w" where
  "AdminTimeWidget_init super_init attrs format =
     super_init (AdminTimeWidget_final_attrs attrs) format"

definition AdminSelectMultiple_final_attrs :: "attrs option \<Rightarrow> attrs" where
  "AdminSelectMultiple_final_attrs attrs =
     (let final_attrs = [(''class'', PyStr ''select-multi'')]
      in case attrs of None \<Rightarrow> final_attrs | Some a \<Rightarrow> dict_update final_attrs a)"

definition AdminSelectMultiple_init :: "(attrs \<Rightarrow> 'w) \<Rightarrow> attrs option \<Rightarrow> 'w" where
  "AdminSelectMultiple_init super_init attrs =
     super_init (AdminSelectMultiple_final_attrs attrs)"

definition AdminTextareaWidget_final_attrs :: "attrs option \<Rightarrow> attrs" where
  "AdminTextareaWidget_final_attrs attrs =
     (let final_attrs = [(''class'', PyStr ''textarea-field'')]
      in case attrs of None \<Rightarrow> final_attrs | Some a \<Rightarrow> dict_update final_attrs a)"

definition AdminTextareaWidget_init :: "(attrs \<Rightarrow> 'w) \<Rightarrow> attrs option \<Rightarrow> 'w" where
  "AdminTextareaWidget_init super_init attrs =
     super_init (AdminTextareaWidget_final_attrs attrs)"

definition AdminTextInputWidget_final_attrs :: "attrs option \<Rightarrow> attrs" where
  "AdminTextInputWidget_final_attrs attrs =
     (let final_attrs = [(''class'', PyStr ''text-field'')]
      in case attrs of None \<Rightarrow> final_attrs | Some a \<Rightarrow> dict_update final_attrs a)"

definition AdminTextInputWidget_init :: "(attrs \<Rightarrow> 'w) \<Rightarrow> attrs option \<Rightarrow> 'w" where
  "AdminTextInputWidget_init super_init attrs =
     super_init (AdminTextInputWidget_final_attrs attrs)"

definition AdminURLFieldWidget_final_attrs :: "attrs option \<Rightarrow> attrs" where
  "AdminURLFieldWidget_final_attrs attrs =
     (let final_attrs = [(''class'', PyStr ''url-field'')]
      in case attrs of None \<Rightarrow> final_attrs | Some a \<Rightarrow> dict_update final_attrs a)"

definition AdminURLFieldWidget_init :: "(attrs \<Rightarrow> 'w) \<Rightarrow> attrs option \<Rightarrow> 'w" where
  "AdminURLFieldWidget_init super_init attrs =
     super_init (AdminURLFieldWidget_final_attrs attrs)"

definition AdminIntegerFieldWidget_final_attrs :: "attrs option \<Rightarrow> attrs" where
  "AdminIntegerFieldWidget_final_attrs attrs =
     (let final_attrs = [(''class'', PyStr ''int-field'')]
      in case attrs of None \<Rightarrow> final_attrs | Some a \<Rightarrow> dict_update final_attrs a)"

definition AdminIntegerFieldWidget_init :: "(attrs \<Rightarrow> 'w) \<Rightarrow> attrs option \<Rightarrow> 'w" where
  "AdminIntegerFieldWidget_init super_init attrs =
     super_init (AdminIntegerFieldWidget_final_attrs attrs)"

definition AdminCommaSeparatedIntegerFieldWidget_final_attrs :: "attrs option \<Rightarrow> attrs" where
  "AdminCommaSeparatedIntegerFieldWidget_final_attrs attrs =
     (let final_attrs = [(''class'', PyStr ''sep-int-field'')]
      in case attrs of None \<Rightarrow> final_attrs | Some a \<Rightarrow> dict_update final_attrs a)"

definition AdminCommaSeparatedIntegerFieldWidget_init ::
    "(attrs \<Rightarrow> 'w) \<Rightarrow> attrs option \<Rightarrow> 'w" where
  "AdminCommaSeparatedIntegerFieldWidget_init super_init attrs =
     super_init (AdminCommaSeparatedIntegerFieldWidget_final_attrs attrs)"

text \<open>The caller's \<open>attrs\<close> is \<open>None\<close> or a dict: no key stands in it twice.\<close>

definition is_dict :: "attrs option \<Rightarrow> bool" where
  "is_dict attrs = (case attrs of None \<Rightarrow> True | Some a \<Rightarrow> distinct (map fst a))"

text \<open>
  The claim about the constructors in its own words: a key the caller supplied has the
  caller's value, any other key has its default, if it has one.
\<close>

definition with_defaults :: "attrs \<Rightarrow> attrs option \<Rightarrow> string \<Rightarrow> pyval option" where
  "with_defaults defaults attrs k =
     (case attrs of
        None \<Rightarrow> map_of defaults k
      | Some a \<Rightarrow> (case map_of a k of Some v \<Rightarrow> Some v | None \<Rightarrow> map_of defaults k))"

subsection \<open>AdminDateWidget.render, AdminTimeWidget.render, AdminSplitDateTime.format_output\<close>

text \<open>
  \<open>super_render\<close> is \<open>render\<close> of the framework's base class (\<open>forms.DateInput\<close>,
  \<open>forms.TimeInput\<close>): it returns the HTML of the input, or raises. \<open>gettext\<close> is the
  translation function the module imports as \<open>_\<close>. The two string literals of each
  template stand side by side in the source, which joins them.
\<close>

definition AdminDateWidget_render ::
    "(string \<Rightarrow> string) \<Rightarrow> ('n \<Rightarrow> 'v \<Rightarrow> attrs option \<Rightarrow> py_error + pyval)
      \<Rightarrow> 'n \<Rightarrow> 'v \<Rightarrow> attrs option \<Rightarrow> py_error + pyval" where
  \<open>AdminDateWidget_render gettext super_render name val attrs =
     bind_err (super_render name val attrs) (\<lambda>input_html.
       bind_err
         (pct_format
            (''<div class="input-group date bootstrap-datepicker"><span class="input-group-addon"><i class="fa fa-calendar"></i></span>%s''
             @ ''<span class="input-group-btn"><button class="btn btn-default" type="button">%s</button></span></div>'')
            [py_str input_html, gettext ''Today''])
         (\<lambda>s. Inr (mark_safe s)))\<close>

definition AdminTimeWidget_render ::
    "(string \<Rightarrow> string) \<Rightarrow> ('n \<Rightarrow> 'v \<Rightarrow> attrs option \<Rightarrow> py_error + pyval)
      \<Rightarrow> 'n \<Rightarrow> 'v \<Rightarrow> attrs option \<Rightarrow> py_error + pyval" where
  \<open>AdminTimeWidget_render gettext super_render name val attrs =
     bind_err (super_render name val attrs) (\<lambda>input_html.
       bind_err
         (pct_format
            (''<div class="input-group time bootstrap-clockpicker"><span class="input-group-addon"><i class="fa fa-clock-o">''
             @ ''</i></span>%s<span class="input-group-btn"><button class="btn btn-default" type="button">%s</button></span></div>'')
            [py_str input_html, gettext ''Now''])
         (\<lambda>s. Inr (mark_safe s)))\<close>

text \<open>\<open>rendered_widgets[0]\<close> and \<open>rendered_widgets[1]\<close> raise \<open>IndexError\<close> on a shorter list.\<close>

definition format_output :: "pyval list \<Rightarrow> py_error + pyval" where
  \<open>format_output rendered_widgets =
     bind_err (list_getitem rendered_widgets 0) (\<lambda>r0.
     bind_err (list_getitem rendered_widgets 1) (\<lambda>r1.
     bind_err (pct_format ''<div class="datetime clearfix">%s%s</div>'' [py_str r0, py_str r1])
       (\<lambda>s. Inr (mark_safe s))))\<close>

subsection \<open>Attribute dicts as shared objects\<close>

text \<open>
  A renderer and the inputs it creates hold references to attribute dicts, and
  \<open>ChoiceInput.tag\<close> and \<open>AdminRadioInput.render\<close> store into the dict they refer to.
  The dicts therefore live in a store: \<open>cells h a\<close> is the dict at address \<open>a\<close>, and
  the addresses below \<open>next_free h\<close> are the ones in use. \<open>attrs.copy()\<close> puts a new
  dict with the same entries at the next free address.
\<close>

type_synonym addr = nat

record heap =
  cells :: "addr \<Rightarrow> attrs"
  next_free :: addr

definition dict_copy :: "addr \<Rightarrow> heap \<Rightarrow> addr \<times> heap" where
  "dict_copy a h =
     (next_free h,
      h\<lparr>cells := (cells h)(next_free h := cells h a), next_free := Suc (next_free h)\<rparr>)"

definition store_item :: "addr \<Rightarrow> string \<Rightarrow> pyval \<Rightarrow> heap \<Rightarrow> heap" where
  "store_item a k v h = h\<lparr>cells := (cells h)(a := dict_setitem (cells h a) k v)\<rparr>"

subsection \<open>ChoiceInput, RadioChoiceInput and AdminRadioInput\<close>

text \<open>
  A choice is a pair of a value and a label. An input object has the fields the
  constructor of \<open>ChoiceInput\<close> sets; \<open>in_class\<close> is the class it was created from, which
  decides whose \<open>render\<close> runs. \<open>RadioChoiceInput.__init__\<close> also replaces \<open>value\<close> by its
  text. Both classes have \<open>input_type = 'radio'\<close>.
\<close>

type_synonym choice = "pyval \<times> pyval"

datatype input_class = RadioChoiceInput | AdminRadioInput

record choice_input =
  in_class :: input_class
  in_name :: pyval
  in_value :: pyval
  in_attrs :: addr
  choice_value :: pyval
  choice_label :: pyval
  in_index :: int

definition ChoiceInput_init ::
    "input_class \<Rightarrow> pyval \<Rightarrow> pyval \<Rightarrow> addr \<Rightarrow> choice \<Rightarrow> int \<Rightarrow> choice_input" where
  "ChoiceInput_init cls name val attrs choice index =
     \<lparr>in_class = cls, in_name = name, in_value = val, in_attrs = attrs,
      choice_value = force_text (fst choice), choice_label = force_text (snd choice),
      in_index = index\<rparr>"

definition RadioChoiceInput_init ::
    "input_class \<Rightarrow> pyval \<Rightarrow> pyval \<Rightarrow> addr \<Rightarrow> choice \<Rightarrow> int \<Rightarrow> choice_input" where
  "RadioChoiceInput_init cls name val attrs choice index =
     (let self = ChoiceInput_init cls name val attrs choice index
      in self\<lparr>in_value := force_text (in_value self)\<rparr>)"

definition input_type :: "input_class \<Rightarrow> pyval" where
  "input_type cls = PyStr ''radio''"

text \<open>
  \<open>a == b\<close>: strings are equal when their characters are, safe or not; booleans are the
  integers 0 and 1; \<open>None\<close> equals only itself.
\<close>

fun py_key :: "pyval \<Rightarrow> (int + string) option" where
  "py_key PyNone = None"
| "py_key (PyBool b) = Some (Inl (if b then 1 else 0))"
| "py_key (PyInt i) = Some (Inl i)"
| "py_key (PyStr s) = Some (Inr s)"
| "py_key (SafeText s) = Some (Inr s)"

definition py_eq :: "pyval \<Rightarrow> pyval \<Rightarrow> bool" where
  "py_eq a b = (py_key a = py_key b)"

definition is_checked :: "choice_input \<Rightarrow> bool" where
  "is_checked self = py_eq (in_value self) (choice_value self)"

text \<open>
  \<open>ChoiceInput.tag\<close>. If the input's dict has an \<open>id\<close>, the index is appended to it in
  place. The result is the \<open>input\<close> element with the attributes of
  \<open>dict(self.attrs, type=..., name=..., value=...)\<close>, and \<open>checked\<close> when the input is
  the selected one.
\<close>

definition tag :: "choice_input \<Rightarrow> heap \<Rightarrow> (py_error + pyval) \<times> heap" where
  \<open>tag self h =
     (case (if dict_contains (cells h (in_attrs self)) ''id'' then
              bind_err (dict_getitem (cells h (in_attrs self)) ''id'') (\<lambda>i.
              bind_err (pct_format ''%s_%s'' [py_str i, str_of_int (in_index self)]) (\<lambda>s.
                Inr (store_item (in_attrs self) ''id'' (PyStr s) h)))
            else Inr h) of
        Inl e \<Rightarrow> (Inl e, h)
      | Inr h1 \<Rightarrow>
          (let final_attrs =
                 dict_update (cells h1 (in_attrs self))
                   [(''type'', input_type (in_class self)), (''name'', in_name self),
                    (''value'', choice_value self)];
               final_attrs =
                 (if is_checked self then dict_setitem final_attrs ''checked'' (PyStr ''checked'')
                  else final_attrs)
           in (bind_err (flatatt final_attrs) (\<lambda>f. format_html ''<input{0} />'' [f]), h1)))\<close>

text \<open>
  \<open>attrs or self.attrs\<close>: the dict passed to \<open>render\<close>, unless none is passed or the one
  passed is empty.
\<close>

definition effective_attrs :: "choice_input \<Rightarrow> addr option \<Rightarrow> heap \<Rightarrow> addr" where
  "effective_attrs self attrs h =
     (case attrs of
        None \<Rightarrow> in_attrs self
      | Some a \<Rightarrow> if cells h a = [] then in_attrs self else a)"

text \<open>
  \<open>ChoiceInput.render\<close>, which a \<open>RadioChoiceInput\<close> inherits. The arguments of
  \<open>format_html\<close> are evaluated from the left: \<open>label_for\<close> is built before \<open>tag\<close> changes
  the \<open>id\<close>. The assignments to \<open>name\<close>, \<open>value\<close> and \<open>attrs\<close> at its start are never read.
\<close>

definition ChoiceInput_render :: "choice_input \<Rightarrow> heap \<Rightarrow> (py_error + pyval) \<times> heap" where
  \<open>ChoiceInput_render self h =
     (case (if dict_contains (cells h (in_attrs self)) ''id'' then
              bind_err (dict_getitem (cells h (in_attrs self)) ''id'') (\<lambda>i.
                format_html '' for="{0}_{1}"'' [i, PyInt (in_index self)])
            else Inr (PyStr '''')) of
        Inl e \<Rightarrow> (Inl e, h)
      | Inr label_for \<Rightarrow>
          (case tag self h of
             (Inl e, h1) \<Rightarrow> (Inl e, h1)
           | (Inr t, h1) \<Rightarrow>
               (format_html ''<label{0}>{1} {2}</label>'' [label_for, t, choice_label self], h1)))\<close>

text \<open>\<open>s.replace(old, new)\<close> on a value: only a string has the method.\<close>

fun method_replace :: "pyval \<Rightarrow> string \<Rightarrow> string \<Rightarrow> py_error + pyval" where
  "method_replace (PyStr s) old new = Inr (PyStr (str_replace old new s))"
| "method_replace (SafeText s) old new = Inr (PyStr (str_replace old new s))"
| "method_replace v old new = Inl AttributeError"

text \<open>
  \<open>AdminRadioInput.render\<close>. \<open>attrs\<close> is the optional dict argument; \<open>name\<close>, \<open>value\<close> and
  \<open>choices\<close> are assigned and never read. The class is stored into the effective dict
  before anything else.
\<close>

definition AdminRadioInput_render ::
    "choice_input \<Rightarrow> addr option \<Rightarrow> heap \<Rightarrow> (py_error + pyval) \<times> heap" where
  \<open>AdminRadioInput_render self attrs_arg h =
     (let attrs = effective_attrs self attrs_arg h in
      case method_replace (dict_get (cells h attrs) ''class'' (PyStr '''')) ''form-control'' '''' of
        Inl e \<Rightarrow> (Inl e, h)
      | Inr cls \<Rightarrow>
          (let h1 = store_item attrs ''class'' cls h in
           case (if dict_contains (cells h1 (in_attrs self)) ''id'' then
                   bind_err (dict_getitem (cells h1 (in_attrs self)) ''id'') (\<lambda>i.
                     pct_format '' for="%s_%s"'' [py_str i, str_of_int (in_index self)])
                 else Inr '''') of
             Inl e \<Rightarrow> (Inl e, h1)
           | Inr label_for \<Rightarrow>
               (let label = conditional_escape (force_text (choice_label self)) in
                if truthy (dict_get (cells h1 attrs) ''inline'' (PyBool False)) then
                  (case tag self h1 of
                     (Inl e, h2) \<Rightarrow> (Inl e, h2)
                   | (Inr t, h2) \<Rightarrow>
                       (bind_err
                          (pct_format ''<label%s class="radio-inline">%s %s</label>''
                             [label_for, py_str t, py_str label])
                          (\<lambda>s. Inr (mark_safe s)), h2))
                else
                  (case tag self h1 of
                     (Inl e, h2) \<Rightarrow> (Inl e, h2)
                   | (Inr t, h2) \<Rightarrow>
                       (bind_err
                          (pct_format ''<div class="radio"><label%s>%s %s</label></div>''
                             [label_for, py_str t, py_str label])
                          (\<lambda>s. Inr (mark_safe s)), h2)))))\<close>

text \<open>\<open>str(widget)\<close> and \<open>force_text(widget)\<close> call the \<open>render\<close> of the input's class.\<close>

definition input_str :: "choice_input \<Rightarrow> heap \<Rightarrow> (py_error + pyval) \<times> heap" where
  "input_str self h =
     (case in_class self of
        RadioChoiceInput \<Rightarrow> ChoiceInput_render self h
      | AdminRadioInput \<Rightarrow> AdminRadioInput_render self None h)"

subsection \<open>ChoiceFieldRenderer, RadioFieldRenderer and AdminRadioFieldRenderer\<close>

datatype renderer_class = RadioFieldRenderer | AdminRadioFieldRenderer

record renderer =
  rd_class :: renderer_class
  rd_name :: pyval
  rd_value :: pyval
  rd_attrs :: addr
  rd_choices :: "choice list"

text \<open>\<open>choice_input_class\<close>: \<open>RadioFieldRenderer\<close> sets it, the admin renderer inherits it.\<close>

definition choice_input_class :: "renderer_class \<Rightarrow> input_class" where
  "choice_input_class cls = RadioChoiceInput"

text \<open>
  The input that \<open>__iter__\<close> yields for one choice, and that \<open>__getitem__\<close> returns
  for an index: it gets the renderer's name and value and a copy of its attrs. The
  admin renderer overrides both methods and creates an \<open>AdminRadioInput\<close>.
\<close>

definition ChoiceFieldRenderer_input ::
    "renderer \<Rightarrow> choice \<Rightarrow> int \<Rightarrow> heap \<Rightarrow> choice_input \<times> heap" where
  "ChoiceFieldRenderer_input self choice i h =
     (let (a, h1) = dict_copy (rd_attrs self) h
      in (RadioChoiceInput_init (choice_input_class (rd_class self))
            (rd_name self) (rd_value self) a choice i, h1))"

definition AdminRadioFieldRenderer_input ::
    "renderer \<Rightarrow> choice \<Rightarrow> int \<Rightarrow> heap \<Rightarrow> choice_input \<times> heap" where
  "AdminRadioFieldRenderer_input self choice i h =
     (let (a, h1) = dict_copy (rd_attrs self) h
      in (RadioChoiceInput_init AdminRadioInput (rd_name self) (rd_value self) a choice i, h1))"

definition ChoiceFieldRenderer_getitem ::
    "renderer \<Rightarrow> int \<Rightarrow> heap \<Rightarrow> (py_error + choice_input) \<times> heap" where
  "ChoiceFieldRenderer_getitem self idx h =
     (case list_getitem (rd_choices self) idx of
        Inl e \<Rightarrow> (Inl e, h)
      | Inr choice \<Rightarrow>
          (let (w, h1) = ChoiceFieldRenderer_input self choice idx h in (Inr w, h1)))"

definition AdminRadioFieldRenderer_getitem ::
    "renderer \<Rightarrow> int \<Rightarrow> heap \<Rightarrow> (py_error + choice_input) \<times> heap" where
  "AdminRadioFieldRenderer_getitem self idx h =
     (case list_getitem (rd_choices self) idx of
        Inl e \<Rightarrow> (Inl e, h)
      | Inr choice \<Rightarrow>
          (let (w, h1) = AdminRadioFieldRenderer_input self choice idx h in (Inr w, h1)))"

text \<open>
  The loop of \<open>ChoiceFieldRenderer.render\<close> over \<open>self\<close>: the generator creates an input
  when the loop asks for it, so each input is rendered before the next copy is made.
\<close>

fun ChoiceFieldRenderer_items ::
    "renderer \<Rightarrow> (nat \<times> choice) list \<Rightarrow> heap \<Rightarrow> (py_error + string list) \<times> heap" where
  "ChoiceFieldRenderer_items self [] h = (Inr [], h)"
| "ChoiceFieldRenderer_items self ((i, choice) # rest) h =
     (let (widget, h1) = ChoiceFieldRenderer_input self choice (int i) h in
      case input_str widget h1 of
        (Inl e, h2) \<Rightarrow> (Inl e, h2)
      | (Inr s, h2) \<Rightarrow>
          (case format_html ''<li>{0}</li>'' [force_text s] of
             Inl e \<Rightarrow> (Inl e, h2)
           | Inr li \<Rightarrow>
               (case ChoiceFieldRenderer_items self rest h2 of
                  (Inl e, h3) \<Rightarrow> (Inl e, h3)
                | (Inr out, h3) \<Rightarrow> (Inr (py_str li # out), h3))))"

definition ChoiceFieldRenderer_render :: "renderer \<Rightarrow> heap \<Rightarrow> (py_error + pyval) \<times> heap" where
  \<open>ChoiceFieldRenderer_render self h =
     (let ul_id = dict_get (cells h (rd_attrs self)) ''id'' PyNone in
      case (if truthy ul_id then format_html ''<ul id="{0}">'' [ul_id] else Inr (PyStr ''<ul>'')) of
        Inl e \<Rightarrow> (Inl e, h)
      | Inr start_tag \<Rightarrow>
          (case ChoiceFieldRenderer_items self (enumerate 0 (rd_choices self)) h of
             (Inl e, h1) \<Rightarrow> (Inl e, h1)
           | (Inr items, h1) \<Rightarrow>
               (Inr (mark_safe (str_join [CHR 0x0A] ([py_str start_tag] @ items @ [''</ul>'']))),
                h1)))\<close>

text \<open>\<open>AdminRadioFieldRenderer.render\<close>: the list comprehension over \<open>self\<close>, then the join.\<close>

fun AdminRadioFieldRenderer_items ::
    "renderer \<Rightarrow> (nat \<times> choice) list \<Rightarrow> heap \<Rightarrow> (py_error + string list) \<times> heap" where
  "AdminRadioFieldRenderer_items self [] h = (Inr [], h)"
| "AdminRadioFieldRenderer_items self ((i, choice) # rest) h =
     (let (w, h1) = AdminRadioFieldRenderer_input self choice (int i) h in
      case input_str w h1 of
        (Inl e, h2) \<Rightarrow> (Inl e, h2)
      | (Inr s, h2) \<Rightarrow>
          (case AdminRadioFieldRenderer_items self rest h2 of
             (Inl e, h3) \<Rightarrow> (Inl e, h3)
           | (Inr out, h3) \<Rightarrow> (Inr (py_str (force_text s) # out), h3)))"

definition AdminRadioFieldRenderer_render ::
    "renderer \<Rightarrow> heap \<Rightarrow> (py_error + pyval) \<times> heap" where
  "AdminRadioFieldRenderer_render self h =
     (case AdminRadioFieldRenderer_items self (enumerate 0 (rd_choices self)) h of
        (Inl e, h1) \<Rightarrow> (Inl e, h1)
      | (Inr out, h1) \<Rightarrow> (Inr (mark_safe (str_join [CHR 0x0A] out)), h1))"

text \<open>
  \<open>renderer.render()\<close> and \<open>renderer[idx]\<close>: the methods of the renderer's class. The
  base methods run for a \<open>RadioFieldRenderer\<close>, the overriding ones for the admin
  renderer.
\<close>

definition renderer_render :: "renderer \<Rightarrow> heap \<Rightarrow> (py_error + pyval) \<times> heap" where
  "renderer_render self h =
     (case rd_class self of
        RadioFieldRenderer \<Rightarrow> ChoiceFieldRenderer_render self h
      | AdminRadioFieldRenderer \<Rightarrow> AdminRadioFieldRenderer_render self h)"

definition renderer_getitem ::
    "renderer \<Rightarrow> int \<Rightarrow> heap \<Rightarrow> (py_error + choice_input) \<times> heap" where
  "renderer_getitem self idx h =
     (case rd_class self of
        RadioFieldRenderer \<Rightarrow> ChoiceFieldRenderer_getitem self idx h
      | AdminRadioFieldRenderer \<Rightarrow> AdminRadioFieldRenderer_getitem self idx h)"

subsection \<open>The framework's Widget.build_attrs and CheckboxInput\<close>

text \<open>
  \<open>AdminCheckboxSelect.render\<close> calls two things of the framework's \<open>forms\<close> package,
  written here as its 1.x series has them, up to 1.10.
  \<^item> \<open>Widget.build_attrs(extra_attrs=None, **kwargs)\<close> is \<open>dict(self.attrs, **kwargs)\<close>,
    updated with \<open>extra_attrs\<close> when that is given and not empty.
  \<^item> \<open>CheckboxInput(attrs, check_test).render(name, value)\<close> keeps a copy of \<open>attrs\<close>,
    adds \<open>type\<close> and \<open>name\<close>, adds \<open>checked\<close> when \<open>check_test(value)\<close> holds, adds
    \<open>value\<close> unless the value is \<open>True\<close>, \<open>False\<close>, \<open>None\<close> or the empty string, and
    returns the \<open>input\<close> element with these attributes. The attributes are written by
    the framework's own \<open>flatatt\<close>, which writes a boolean value \<open>True\<close> as the bare
    key, after the others, and leaves out a boolean \<open>False\<close>.
\<close>

definition build_attrs :: "attrs \<Rightarrow> attrs option \<Rightarrow> attrs \<Rightarrow> attrs" where
  "build_attrs self_attrs extra_attrs kwargs =
     (let attrs = dict_update self_attrs kwargs
      in case extra_attrs of
           None \<Rightarrow> attrs
         | Some e \<Rightarrow> if e = [] then attrs else dict_update attrs e)"

fun is_bool :: "pyval \<Rightarrow> bool" where
  "is_bool (PyBool b) = True"
| "is_bool v = False"

definition forms_flatatt :: "attrs \<Rightarrow> py_error + pyval" where
  \<open>forms_flatatt attrs =
     (let key_value_attrs = filter (\<lambda>(attr, v). \<not> is_bool v) attrs;
          boolean_attrs = filter (\<lambda>(attr, v). v = PyBool True) attrs
      in bind_err
           (format_html_join (PyStr '''') '' {}="{}"''
              (map (\<lambda>(k, v). [PyStr k, v]) (sorted_items key_value_attrs))) (\<lambda>kv.
         bind_err
           (format_html_join (PyStr '''') '' {}''
              (map (\<lambda>k. [PyStr k]) (sort (map fst boolean_attrs)))) (\<lambda>b.
         Inr (mark_safe (py_str kv @ py_str b)))))\<close>

definition CheckboxInput_render ::
    "attrs \<Rightarrow> (pyval \<Rightarrow> bool) \<Rightarrow> pyval \<Rightarrow> pyval \<Rightarrow> py_error + pyval" where
  \<open>CheckboxInput_render self_attrs check_test name val =
     (let final_attrs =
            build_attrs self_attrs None [(''type'', PyStr ''checkbox''), (''name'', name)];
          final_attrs =
            (if check_test val then dict_setitem final_attrs ''checked'' (PyStr ''checked'')
             else final_attrs);
          final_attrs =
            (if \<not> (val = PyBool True \<or> val = PyBool False \<or> val = PyNone
                    \<or> py_eq val (PyStr ''''))
             then dict_setitem final_attrs ''value'' (force_text val)
             else final_attrs)
      in bind_err (forms_flatatt final_attrs) (\<lambda>f. format_html ''<input{} />'' [f]))\<close>

subsection \<open>AdminCheckboxSelect.render\<close>

text \<open>
  The widget has the attrs its constructor kept and its own choices. \<open>value\<close> is \<open>None\<close>
  or the list of the selected values, \<open>attrs\<close> is \<open>None\<close> or a dict, \<open>choices\<close> are the
  extra choices. No dict is shared here: \<open>build_attrs\<close>, \<open>dict(final_attrs, id=...)\<close> and
  \<open>CheckboxInput\<close> each make a new one.
\<close>

record checkbox_select =
  cs_attrs :: attrs
  cs_choices :: "choice list"

text \<open>\<open>attrs['id']\<close>, where \<open>attrs\<close> may be \<open>None\<close>.\<close>

definition attrs_getitem :: "attrs option \<Rightarrow> string \<Rightarrow> py_error + pyval" where
  "attrs_getitem attrs k =
     (case attrs of None \<Rightarrow> Inl TypeError | Some a \<Rightarrow> dict_getitem a k)"

text \<open>
  The body of the loop for the option at index \<open>i\<close>: the new \<open>final_attrs\<close> and the
  fragment appended to \<open>output\<close>.
\<close>

definition checkbox_option ::
    "pyval \<Rightarrow> attrs option \<Rightarrow> bool \<Rightarrow> string set \<Rightarrow> attrs \<Rightarrow> nat \<Rightarrow> choice
      \<Rightarrow> py_error + attrs \<times> string" where
  \<open>checkbox_option name attrs has_id str_values final_attrs i option =
     bind_err
       (if has_id then
          bind_err (attrs_getitem attrs ''id'') (\<lambda>aid.
          bind_err (pct_format ''%s_%s'' [py_str aid, str_of_nat i]) (\<lambda>new_id.
            (let final_attrs = dict_update final_attrs [(''id'', PyStr new_id)] in
             bind_err (dict_getitem final_attrs ''id'') (\<lambda>fid.
             bind_err (pct_format '' for="%s"'' [py_str fid]) (\<lambda>label_for.
               Inr (final_attrs, label_for))))))
        else Inr (final_attrs, ''''))
       (\<lambda>(final_attrs, label_for).
          (let option_value = force_text (fst option) in
           bind_err
             (CheckboxInput_render final_attrs (\<lambda>v. py_str v \<in> str_values) name option_value)
             (\<lambda>rendered_cb.
                (let option_label = conditional_escape (force_text (snd option)) in
                 bind_err
                   (if truthy (dict_get final_attrs ''inline'' (PyBool False)) then
                      pct_format ''<label%s class="checkbox-inline">%s %s</label>''
                        [label_for, py_str rendered_cb, py_str option_label]
                    else
                      pct_format ''<div class="checkbox"><label%s>%s %s</label></div>''
                        [label_for, py_str rendered_cb, py_str option_label])
                   (\<lambda>fragment. Inr (final_attrs, fragment))))))\<close>

fun checkbox_loop ::
    "pyval \<Rightarrow> attrs option \<Rightarrow> bool \<Rightarrow> string set \<Rightarrow> (nat \<times> choice) list \<Rightarrow> attrs
      \<Rightarrow> string list \<Rightarrow> py_error + string list" where
  "checkbox_loop name attrs has_id str_values [] final_attrs output = Inr output"
| "checkbox_loop name attrs has_id str_values ((i, option) # rest) final_attrs output =
     bind_err (checkbox_option name attrs has_id str_values final_attrs i option)
       (\<lambda>(final_attrs, fragment).
          checkbox_loop name attrs has_id str_values rest final_attrs (output @ [fragment]))"

definition AdminCheckboxSelect_render ::
    "checkbox_select \<Rightarrow> pyval \<Rightarrow> pyval list option \<Rightarrow> attrs option \<Rightarrow> choice list
      \<Rightarrow> py_error + pyval" where
  "AdminCheckboxSelect_render self name val attrs choices =
     (let val = (case val of None \<Rightarrow> [] | Some vs \<Rightarrow> vs);
          has_id = (case attrs of None \<Rightarrow> False | Some a \<Rightarrow> a \<noteq> [] \<and> dict_contains a ''id'');
          final_attrs = build_attrs (cs_attrs self) attrs [];
          output = [];
          str_values = set (map (\<lambda>v. py_str (force_text v)) val)
      in bind_err
           (checkbox_loop name attrs has_id str_values
              (enumerate 0 (cs_choices self @ choices)) final_attrs output)
           (\<lambda>output. Inr (mark_safe (str_join [CHR 0x0A] output))))"

section \<open>What the claims speak of\<close>

text \<open>
  The definitions of this section are not translated from the source. They give the
  words of the claims a meaning: what an escaped label is, what the rendering of one
  input on its own is, what a labelled checkbox looks like.
\<close>

subsection \<open>Escaped labels\<close>

text \<open>The entity that replaces an HTML-special character; any other character stays.\<close>

definition escape_char :: "char \<Rightarrow> string" where
  \<open>escape_char c =
     (if c = CHR ''&'' then ''&amp;''
      else if c = CHR ''<'' then ''&lt;''
      else if c = CHR ''>'' then ''&gt;''
      else if c = CHR 0x22 then ''&quot;''
      else if c = CHR 0x27 then ''&#39;''
      else [c])\<close>

fun is_safe :: "pyval \<Rightarrow> bool" where
  "is_safe (SafeText s) = True"
| "is_safe v = False"

fun is_text :: "pyval \<Rightarrow> bool" where
  "is_text (PyStr s) = True"
| "is_text (SafeText s) = True"
| "is_text v = False"

text \<open>The text of a label as the widgets put it into their markup.\<close>

definition label_html :: "pyval \<Rightarrow> string" where
  "label_html label = py_str (conditional_escape (force_text label))"

subsection \<open>One input on its own dict\<close>

text \<open>
  A store that holds one dict, at address 0. \<open>tag_on w d\<close> and \<open>input_str_on w d\<close> run
  \<open>tag\<close> and \<open>str\<close> of the input \<open>w\<close> with \<open>d\<close> as the dict its \<open>attrs\<close> refers to, and
  return the result together with the dict afterwards.
\<close>

definition unit_heap :: "attrs \<Rightarrow> heap" where
  "unit_heap d = \<lparr>cells = (\<lambda>a. d), next_free = 1\<rparr>"

definition tag_on :: "choice_input \<Rightarrow> attrs \<Rightarrow> (py_error + pyval) \<times> attrs" where
  "tag_on w d = (let (r, h) = tag (w\<lparr>in_attrs := 0\<rparr>) (unit_heap d) in (r, cells h 0))"

definition input_str_on :: "choice_input \<Rightarrow> attrs \<Rightarrow> (py_error + pyval) \<times> attrs" where
  "input_str_on w d =
     (let (r, h) = input_str (w\<lparr>in_attrs := 0\<rparr>) (unit_heap d) in (r, cells h 0))"

text \<open>
  The claim about the admin renderer in its own words: the rendering of the one
  \<open>AdminRadioInput\<close> made for the choice at index \<open>i\<close>, which receives the renderer's name and value and a copy of its
  attrs as they are in the store \<open>h\<close>.
\<close>

definition admin_radio_rendering :: "renderer \<Rightarrow> heap \<Rightarrow> nat \<times> choice \<Rightarrow> py_error + pyval" where
  "admin_radio_rendering self h ic =
     (let (a, h1) = dict_copy (rd_attrs self) h
      in fst (AdminRadioInput_render
                (RadioChoiceInput_init AdminRadioInput (rd_name self) (rd_value self) a
                   (snd ic) (int (fst ic)))
                None h1))"

text \<open>
  The same for the base renderer: the rendering of the one \<open>RadioChoiceInput\<close> that
  \<open>ChoiceFieldRenderer.__iter__\<close> makes for the choice at index \<open>i\<close>.
\<close>

definition radio_rendering :: "renderer \<Rightarrow> heap \<Rightarrow> nat \<times> choice \<Rightarrow> py_error + pyval" where
  "radio_rendering self h ic =
     (let (a, h1) = dict_copy (rd_attrs self) h
      in fst (ChoiceInput_render
                (RadioChoiceInput_init RadioChoiceInput (rd_name self) (rd_value self) a
                   (snd ic) (int (fst ic)))
                h1))"

subsection \<open>The layout of a radio input\<close>

text \<open>
  The \<open>class\<close> entry of an attribute dict, when there is one, is a string: only then
  does \<open>.replace\<close> exist on it.
\<close>

definition class_is_text :: "attrs \<Rightarrow> bool" where
  "class_is_text d =
     (case map_of d ''class'' of
        None \<Rightarrow> True
      | Some (PyStr s) \<Rightarrow> True
      | Some (SafeText s) \<Rightarrow> True
      | Some v \<Rightarrow> False)"

definition radio_label_for :: "attrs \<Rightarrow> int \<Rightarrow> string" where
  \<open>radio_label_for d i =
     (case map_of d ''id'' of
        None \<Rightarrow> ''''
      | Some v \<Rightarrow> '' for="'' @ py_str v @ ''_'' @ str_of_int i @ ''"'')\<close>

definition inline_radio :: "string \<Rightarrow> string \<Rightarrow> string \<Rightarrow> string" where
  \<open>inline_radio label_for input_tag label =
     ''<label'' @ label_for @ '' class="radio-inline">'' @ input_tag @ '' '' @ label @ ''</label>''\<close>

definition block_radio :: "string \<Rightarrow> string \<Rightarrow> string \<Rightarrow> string" where
  \<open>block_radio label_for input_tag label =
     ''<div class="radio"><label'' @ label_for @ ''>'' @ input_tag @ '' '' @ label @ ''</label></div>''\<close>

subsection \<open>One labelled checkbox\<close>

text \<open>
  The framework's \<open>flatatt\<close> as a string: the entries that are not booleans as
  \<open>key="value"\<close> in ascending key order, then the keys whose value is \<open>True\<close>.
\<close>

definition forms_flatatt_html :: "attrs \<Rightarrow> string" where
  \<open>forms_flatatt_html d =
     concat (map flatatt_fragment (sort_key fst (filter (\<lambda>(k, v). \<not> is_bool v) d)))
     @ concat (map (\<lambda>k. '' '' @ py_str (conditional_escape (PyStr k)))
                (sort (map fst (filter (\<lambda>(k, v). v = PyBool True) d))))\<close>

text \<open>
  The attributes of the \<open>input\<close> element of a checkbox made from the attributes \<open>d\<close>,
  the name \<open>name\<close> and the option value \<open>v\<close> (a string): \<open>type\<close> and \<open>name\<close> are
  set, \<open>checked\<close> is set to \<open>checked\<close> when \<open>checked\<close> is true, and \<open>value\<close> is set
  unless the value is empty. Whatever else \<open>d\<close> holds stays, a \<open>checked\<close> entry of
  \<open>d\<close> included.
\<close>

definition checkbox_input_attrs :: "attrs \<Rightarrow> pyval \<Rightarrow> pyval \<Rightarrow> bool \<Rightarrow> attrs" where
  \<open>checkbox_input_attrs d name v checked =
     (let a = dict_update d [(''type'', PyStr ''checkbox''), (''name'', name)];
          a = (if checked then dict_setitem a ''checked'' (PyStr ''checked'') else a)
      in if py_str v \<noteq> '''' then dict_setitem a ''value'' v else a)\<close>

definition checkbox_input :: "attrs \<Rightarrow> pyval \<Rightarrow> pyval \<Rightarrow> bool \<Rightarrow> string" where
  \<open>checkbox_input d name v checked =
     ''<input'' @ forms_flatatt_html (checkbox_input_attrs d name v checked) @ '' />''\<close>

text \<open>
  An \<open>input\<close> element is rendered checked when its attributes have a \<open>checked\<close> entry
  that the framework's \<open>flatatt\<close> writes: any value but the boolean \<open>False\<close>.
\<close>

definition rendered_checked :: "attrs \<Rightarrow> bool" where
  "rendered_checked a =
     (case map_of a ''checked'' of None \<Rightarrow> False | Some v \<Rightarrow> v \<noteq> PyBool False)"

text \<open>
  The \<open>id\<close> of the attrs passed to \<open>render\<close>, if they have one; \<open>has_own_id\<close> is the
  value the source computes as \<open>has_id\<close>.
\<close>

definition own_id :: "attrs option \<Rightarrow> pyval option" where
  "own_id attrs = (case attrs of None \<Rightarrow> None | Some a \<Rightarrow> map_of a ''id'')"

definition has_own_id :: "attrs option \<Rightarrow> bool" where
  "has_own_id attrs = (case attrs of None \<Rightarrow> False | Some a \<Rightarrow> a \<noteq> [] \<and> dict_contains a ''id'')"

definition inline_checkbox :: "string \<Rightarrow> string \<Rightarrow> string \<Rightarrow> string" where
  \<open>inline_checkbox label_for input_tag label =
     ''<label'' @ label_for @ '' class="checkbox-inline">'' @ input_tag @ '' '' @ label @ ''</label>''\<close>

definition block_checkbox :: "string \<Rightarrow> string \<Rightarrow> string \<Rightarrow> string" where
  \<open>block_checkbox label_for input_tag label =
     ''<div class="checkbox"><label'' @ label_for @ ''>'' @ input_tag @ '' '' @ label @ ''</label></div>''\<close>

text \<open>
  The attributes and the \<open>for\<close> of the label of the option at index \<open>i\<close>: when the
  attrs of the call have an \<open>id\<close>, the checkbox gets that id with the index appended
  and the label refers to it.
\<close>

definition option_attrs :: "attrs \<Rightarrow> attrs option \<Rightarrow> nat \<Rightarrow> attrs" where
  \<open>option_attrs base attrs i =
     (case own_id attrs of
        None \<Rightarrow> base
      | Some v \<Rightarrow> dict_setitem base ''id'' (PyStr (py_str v @ ''_'' @ str_of_nat i)))\<close>

definition option_label_for :: "attrs option \<Rightarrow> nat \<Rightarrow> string" where
  \<open>option_label_for attrs i =
     (case own_id attrs of
        None \<Rightarrow> ''''
      | Some v \<Rightarrow> '' for="'' @ py_str v @ ''_'' @ str_of_nat i @ ''"'')\<close>

text \<open>
  The labelled checkbox of the option at index \<open>i\<close>. \<open>base\<close> is the widget's attrs
  updated with the attrs of the call. The widget sets \<open>checked\<close> on the checkbox
  exactly when the text of the option's value is one of \<open>str_values\<close>, the texts of the
  selected values.
\<close>

definition labelled_checkbox ::
    "attrs \<Rightarrow> attrs option \<Rightarrow> pyval \<Rightarrow> string set \<Rightarrow> nat \<times> choice \<Rightarrow> string" where
  \<open>labelled_checkbox base attrs name str_values ic =
     (let i = fst ic; option_value = force_text (fst (snd ic));
          own_id = (case attrs of None \<Rightarrow> None | Some a \<Rightarrow> map_of a ''id'');
          new_id = (case own_id of None \<Rightarrow> '''' | Some v \<Rightarrow> py_str v @ ''_'' @ str_of_nat i);
          d = (case own_id of None \<Rightarrow> base | Some v \<Rightarrow> dict_setitem base ''id'' (PyStr new_id));
          label_for = (case own_id of None \<Rightarrow> '''' | Some v \<Rightarrow> '' for="'' @ new_id @ ''"'');
          input_tag = checkbox_input d name option_value (py_str option_value \<in> str_values);
          label = label_html (snd (snd ic))
      in if truthy (dict_get base ''inline'' (PyBool False))
         then inline_checkbox label_for input_tag label
         else block_checkbox label_for input_tag label)\<close>

definition selected_texts :: "pyval list option \<Rightarrow> string set" where
  "selected_texts val =
     (case val of None \<Rightarrow> {} | Some vs \<Rightarrow> set (map (\<lambda>v. py_str (force_text v)) vs))"

section \<open>Properties of get_context_dict\<close>

lemma copy_layer_keys:
  "set ts \<subseteq> fst ` set i \<Longrightarrow>
     \<exists>ctx'. copy_layer i ts ctx = Inr ctx'
       \<and> map_of ctx' = (\<lambda>k. if k \<in> set ts then map_of i k else map_of ctx k)
       \<and> (distinct (map fst ctx) \<longrightarrow> distinct (map fst ctx'))"
proof (induction ts arbitrary: ctx)
  case Nil
  then show ?case by simp
next
  case (Cons t ts)
  from Cons.prems have "t \<in> fst ` set i" by simp
  then obtain v where v: "map_of i t = Some v"
    by (metis domD dom_map_of_conv_image_fst)
  from Cons.prems have sub: "set ts \<subseteq> fst ` set i" by simp
  from Cons.IH [OF sub, of "dict_setitem ctx t v"]
  obtain ctx' where c: "copy_layer i ts (dict_setitem ctx t v) = Inr ctx'"
    and m: "map_of ctx' = (\<lambda>k. if k \<in> set ts then map_of i k else map_of (dict_setitem ctx t v) k)"
    and d: "distinct (map fst (dict_setitem ctx t v)) \<longrightarrow> distinct (map fst ctx')"
    by blast
  have "copy_layer i (t # ts) ctx = Inr ctx'"
    using v c by (simp add: bind_err_def dict_getitem_def)
  moreover have "map_of ctx' = (\<lambda>k. if k \<in> set (t # ts) then map_of i k else map_of ctx k)"
    using m v by (auto simp: dict_setitem_def update_conv' fun_eq_iff)
  moreover have "distinct (map fst ctx) \<longrightarrow> distinct (map fst ctx')"
    using d by (simp add: dict_setitem_def distinct_update)
  ultimately show ?case by blast
qed

lemma copy_layer_whole:
  "\<exists>ctx'. copy_layer i (dict_keys i) ctx = Inr ctx'
     \<and> map_of ctx' = (\<lambda>k. case map_of i k of Some v \<Rightarrow> Some v | None \<Rightarrow> map_of ctx k)
     \<and> (distinct (map fst ctx) \<longrightarrow> distinct (map fst ctx'))"
proof -
  have "set (dict_keys i) \<subseteq> fst ` set i" by (simp add: dict_keys_def)
  from copy_layer_keys [OF this, of ctx]
  obtain ctx' where c: "copy_layer i (dict_keys i) ctx = Inr ctx'"
    and m: "map_of ctx' = (\<lambda>k. if k \<in> set (dict_keys i) then map_of i k else map_of ctx k)"
    and d: "distinct (map fst ctx) \<longrightarrow> distinct (map fst ctx')"
    by blast
  have "map_of ctx' = (\<lambda>k. case map_of i k of Some v \<Rightarrow> Some v | None \<Rightarrow> map_of ctx k)"
  proof
    fix k
    show "map_of ctx' k = (case map_of i k of Some v \<Rightarrow> Some v | None \<Rightarrow> map_of ctx k)"
    proof (cases "map_of i k")
      case None
      then have "k \<notin> set (dict_keys i)"
        by (simp add: dict_keys_def map_of_eq_None_iff)
      with m None show ?thesis by simp
    next
      case (Some v)
      then have "k \<in> set (dict_keys i)"
        by (metis dict_keys_def domI dom_map_of_conv_image_fst set_map)
      with m Some show ?thesis by simp
    qed
  qed
  with c d show ?thesis by blast
qed

lemma copy_layers_lookup:
  "\<exists>ctx'. copy_layers ds ctx = Inr ctx'
     \<and> (\<forall>k. map_of ctx' k = (case layered_lookup ds k of Some v \<Rightarrow> Some v | None \<Rightarrow> map_of ctx k))
     \<and> (distinct (map fst ctx) \<longrightarrow> distinct (map fst ctx'))"
proof (induction ds arbitrary: ctx)
  case Nil
  then show ?case by simp
next
  case (Cons i ds)
  from copy_layer_whole [of i ctx]
  obtain c1 where c1: "copy_layer i (dict_keys i) ctx = Inr c1"
    and m1: "map_of c1 = (\<lambda>k. case map_of i k of Some v \<Rightarrow> Some v | None \<Rightarrow> map_of ctx k)"
    and d1: "distinct (map fst ctx) \<longrightarrow> distinct (map fst c1)"
    by blast
  from Cons.IH [of c1]
  obtain c2 where c2: "copy_layers ds c1 = Inr c2"
    and m2: "\<forall>k. map_of c2 k = (case layered_lookup ds k of Some v \<Rightarrow> Some v | None \<Rightarrow> map_of c1 k)"
    and d2: "distinct (map fst c1) \<longrightarrow> distinct (map fst c2)"
    by blast
  have "copy_layers (i # ds) ctx = Inr c2"
    using c1 c2 by (simp add: bind_err_def)
  moreover have "\<forall>k. map_of c2 k =
      (case layered_lookup (i # ds) k of Some v \<Rightarrow> Some v | None \<Rightarrow> map_of ctx k)"
    using m1 m2 by (simp split: option.splits)
  moreover have "distinct (map fst ctx) \<longrightarrow> distinct (map fst c2)"
    using d1 d2 by simp
  ultimately show ?case by blast
qed

text \<open>
  C1. For a \<open>RequestContext\<close>, \<open>get_context_dict\<close> returns one flat dict: it has no key
  twice, and it holds exactly the key/value pairs that the layers of \<open>context.dicts\<close>
  give when, for a key present in several layers, the later layer wins. Any other
  object (a plain dict, or anything else) is returned as it is.
\<close>

theorem get_context_dict_flattens:
  "(\<exists>ctx. get_context_dict (RequestContext ds :: ('k, 'v, 'o) context_obj) = Inr (Dict ctx)
      \<and> distinct (map fst ctx)
      \<and> set ctx = {(k, v). layered_lookup ds k = Some v})
   \<and> get_context_dict (Dict d :: ('k, 'v, 'o) context_obj) = Inr (Dict d)
   \<and> get_context_dict (Other x :: ('k, 'v, 'o) context_obj) = Inr (Other x)"
proof -
  from copy_layers_lookup [of ds "[]"]
  obtain ctx where c: "copy_layers ds [] = Inr ctx"
    and m: "\<forall>k. map_of ctx k = (case layered_lookup ds k of Some v \<Rightarrow> Some v | None \<Rightarrow> map_of [] k)"
    and d: "distinct (map fst ctx)"
    by auto
  have look: "map_of ctx k = layered_lookup ds k" for k
    using m by (simp split: option.splits)
  have "set ctx = {(k, v). layered_lookup ds k = Some v}"
  proof (rule set_eqI)
    fix p :: "'k \<times> 'v"
    obtain k v where p: "p = (k, v)" by (cases p)
    show "p \<in> set ctx \<longleftrightarrow> p \<in> {(k, v). layered_lookup ds k = Some v}"
      using map_of_eq_Some_iff [OF d, of k v] look [of k] by (simp add: p)
  qed
  moreover have "get_context_dict (RequestContext ds :: ('k, 'v, 'o) context_obj) = Inr (Dict ctx)"
    using c by (simp add: get_context_dict_def bind_err_def)
  ultimately show ?thesis
    using d by (simp add: get_context_dict_def)
qed

section \<open>Properties of string formatting and escaping\<close>

lemma bind_err_Inr [simp]: "bind_err (Inr x) f = f x"
  by (simp add: bind_err_def)

lemma bind_err_Inl [simp]: "bind_err (Inl e) f = Inl e"
  by (simp add: bind_err_def)

lemma str_format_pair: \<open>str_format '' {0}="{1}"'' [a, b] = Inr ('' '' @ a @ ''="'' @ b @ ''"'')\<close>
  by (simp add: str_format_def digit_val_def)

lemma str_join_empty_sep: "str_join [] xs = concat xs"
  by (induction "[] :: string" xs rule: str_join.induct) simp_all

lemma map_err_total:
  "(\<And>x. f x = Inr (g x)) \<Longrightarrow> map_err f xs = Inr (map g xs)"
  by (induction xs) simp_all

lemma escape_empty: "py_str (escape (PyStr [])) = []"
  by (simp add: escape_def mark_safe_def)

section \<open>Properties of flatatt\<close>

lemma format_html_pair:
  \<open>format_html '' {0}="{1}"'' [PyStr k, v] = Inr (SafeText (flatatt_fragment (k, v)))\<close>
  by (simp add: format_html_def str_format_pair flatatt_fragment_def mark_safe_def)

lemma flatatt_parts:
  \<open>map_err (format_html '' {0}="{1}"'') (map (\<lambda>(k, v). [PyStr k, v]) kvs)
     = Inr (map (\<lambda>kv. SafeText (flatatt_fragment kv)) kvs)\<close>
proof (induction kvs)
  case Nil
  then show ?case by simp
next
  case (Cons kv kvs)
  obtain k v where kv: "kv = (k, v)" by (cases kv)
  show ?case
    using Cons.IH by (simp add: kv format_html_pair)
qed

lemma str_replace_char:
  "str_replace [c] new s = concat (map (\<lambda>x. if x = c then new else [x]) s)"
  by (induction s) auto

lemma escape_chars: "py_str (escape v) = concat (map escape_char (py_str v))"
proof -
  have f: "py_str (force_text v) = py_str v"
    by (cases v) simp_all
  have "str_replace [CHR 0x27] ''&#39;''
         (str_replace [CHR 0x22] ''&quot;''
           (str_replace ''>'' ''&gt;''
             (str_replace ''<'' ''&lt;''
               (str_replace ''&'' ''&amp;'' s)))) = concat (map escape_char s)" for s
    unfolding str_replace_char
    by (induction s) (simp_all add: escape_char_def)
  then show ?thesis
    by (simp add: escape_def mark_safe_def f)
qed

lemma label_html_safe: "label_html (SafeText s) = s"
  by (simp add: label_html_def)

lemma label_html_unsafe: "\<not> is_safe v \<Longrightarrow> label_html v = concat (map escape_char (py_str v))"
  by (cases v) (simp_all add: label_html_def escape_chars)

lemma escape_char_plain:
  "set (escape_char c) \<inter> {CHR ''<'', CHR ''>'', CHR 0x22, CHR 0x27} = {}"
  by (simp add: escape_char_def)

lemma flatatt_html: "flatatt a = Inr (SafeText (concat (map flatatt_fragment (sort_key fst a))))"
  by (simp add: flatatt_def format_html_join_def sorted_items_def flatatt_parts escape_empty
        str_join_empty_sep mark_safe_def comp_def)

text \<open>
  C2, as the code has it. \<open>flatatt\<close> never raises; it returns the safe string that
  concatenates, in ascending order of the keys, one fragment per entry: a space, the
  key, \<open>="\<close>, the value and a closing quote, where key and value have gone through
  \<open>conditional_escape\<close> (so a value that is not marked safe has its HTML-special
  characters replaced). The empty dict gives the empty string.
\<close>

theorem flatatt_escaped_fragments:
  "flatatt attrs = Inr (SafeText (concat (map flatatt_fragment (sort_key fst attrs))))
   \<and> sorted (map fst (sort_key fst attrs))
   \<and> mset (sort_key fst attrs) = mset attrs
   \<and> flatatt [] = Inr (SafeText [])"
  using flatatt_html [of attrs] flatatt_html [of "[]"] by simp

text \<open>
  The claim as it is written fails on a value with an HTML-special character: for
  \<open>{'title': 'a<b'}\<close> the code returns \<open> title="a&lt;b"\<close>, not \<open> title="a<b"\<close>.
\<close>

theorem flatatt_value_not_verbatim:
  \<open>flatatt [(''title'', PyStr ''a<b'')] = Inr (SafeText '' title="a&lt;b"'')
   \<and> flatatt_as_claimed [(''title'', PyStr ''a<b'')] = '' title="a<b"''
   \<and> flatatt [(''title'', PyStr ''a<b'')]
       \<noteq> Inr (SafeText (flatatt_as_claimed [(''title'', PyStr ''a<b'')]))\<close>
  by (simp add: flatatt_def format_html_join_def sorted_items_def format_html_def str_format_def
      digit_val_def escape_def mark_safe_def flatatt_as_claimed_def)

section \<open>Properties of the constructors\<close>

lemma map_of_dict_update:
  "distinct (map fst e) \<Longrightarrow>
     map_of (dict_update d e) k = (case map_of e k of Some v \<Rightarrow> Some v | None \<Rightarrow> map_of d k)"
proof (induction e arbitrary: d)
  case Nil
  then show ?case by simp
next
  case (Cons kv e)
  obtain k' v' where kv: "kv = (k', v')" by (cases kv)
  from Cons.prems have notin: "k' \<notin> fst ` set e" and dist: "distinct (map fst e)"
    by (simp_all add: kv)
  from notin have none: "map_of e k' = None"
    by (simp add: map_of_eq_None_iff)
  show ?case
    using Cons.IH [OF dist, of "dict_setitem d k' v'"] none
    by (auto simp: kv dict_setitem_def update_conv' split: option.splits)
qed

lemma distinct_dict_update:
  "distinct (map fst d) \<Longrightarrow> distinct (map fst (dict_update d e))"
proof (induction e arbitrary: d)
  case Nil
  then show ?case by simp
next
  case (Cons kv e)
  obtain k' v' where kv: "kv = (k', v')" by (cases kv)
  show ?case
    using Cons by (simp add: kv dict_setitem_def distinct_update)
qed

lemma final_attrs_with_defaults:
  "is_dict attrs \<Longrightarrow>
     map_of (case attrs of None \<Rightarrow> defaults | Some a \<Rightarrow> dict_update defaults a) k
       = with_defaults defaults attrs k"
  by (cases attrs) (simp_all add: is_dict_def with_defaults_def map_of_dict_update)

text \<open>
  C6. Whether the caller gives no \<open>attrs\<close> or a dict, every constructor passes to its
  base class the widget's defaults overridden by the caller's entries: a key of the
  caller's dict has the caller's value, and a default the caller did not supply is
  kept. \<open>AdminDateWidget\<close> defaults to class \<open>date-field\<close> and size \<open>10\<close>,
  \<open>AdminTimeWidget\<close> to class \<open>time-field\<close> and size \<open>8\<close>, and the others to the class
  \<open>select-multi\<close>, \<open>textarea-field\<close>, \<open>text-field\<close>, \<open>url-field\<close>, \<open>int-field\<close> and
  \<open>sep-int-field\<close>.
\<close>

theorem admin_widget_defaults_overridden:
  "is_dict attrs \<Longrightarrow>
     (AdminDateWidget_init super_init2 attrs format
           = super_init2 (AdminDateWidget_final_attrs attrs) format
   \<and> map_of (AdminDateWidget_final_attrs attrs) k
           = with_defaults [(''class'', PyStr ''date-field''), (''size'', PyStr ''10'')] attrs k
   \<and> AdminTimeWidget_init super_init2 attrs format
           = super_init2 (AdminTimeWidget_final_attrs attrs) format
   \<and> map_of (AdminTimeWidget_final_attrs attrs) k
           = with_defaults [(''class'', PyStr ''time-field''), (''size'', PyStr ''8'')] attrs k
   \<and> AdminSelectMultiple_init super_init attrs
           = super_init (AdminSelectMultiple_final_attrs attrs)
   \<and> map_of (AdminSelectMultiple_final_attrs attrs) k
           = with_defaults [(''class'', PyStr ''select-multi'')] attrs k
   \<and> AdminTextareaWidget_init super_init attrs
           = super_init (AdminTextareaWidget_final_attrs attrs)
   \<and> map_of (AdminTextareaWidget_final_attrs attrs) k
           = with_defaults [(''class'', PyStr ''textarea-field'')] attrs k
   \<and> AdminTextInputWidget_init super_init attrs
           = super_init (AdminTextInputWidget_final_attrs attrs)
   \<and> map_of (AdminTextInputWidget_final_attrs attrs) k
           = with_defaults [(''class'', PyStr ''text-field'')] attrs k
   \<and> AdminURLFieldWidget_init super_init attrs
           = super_init (AdminURLFieldWidget_final_attrs attrs)
   \<and> map_of (AdminURLFieldWidget_final_attrs attrs) k
           = with_defaults [(''class'', PyStr ''url-field'')] attrs k
   \<and> AdminIntegerFieldWidget_init super_init attrs
           = super_init (AdminIntegerFieldWidget_final_attrs attrs)
   \<and> map_of (AdminIntegerFieldWidget_final_attrs attrs) k
           = with_defaults [(''class'', PyStr ''int-field'')] attrs k
   \<and> AdminCommaSeparatedIntegerFieldWidget_init super_init attrs
           = super_init (AdminCommaSeparatedIntegerFieldWidget_final_attrs attrs)
   \<and> map_of (AdminCommaSeparatedIntegerFieldWidget_final_attrs attrs) k
           = with_defaults [(''class'', PyStr ''sep-int-field'')] attrs k)"
  by (simp add: Let_def AdminDateWidget_init_def AdminDateWidget_final_attrs_def
      AdminTimeWidget_init_def AdminTimeWidget_final_attrs_def
      AdminSelectMultiple_init_def AdminSelectMultiple_final_attrs_def
      AdminTextareaWidget_init_def AdminTextareaWidget_final_attrs_def
      AdminTextInputWidget_init_def AdminTextInputWidget_final_attrs_def
      AdminURLFieldWidget_init_def AdminURLFieldWidget_final_attrs_def
      AdminIntegerFieldWidget_init_def AdminIntegerFieldWidget_final_attrs_def
      AdminCommaSeparatedIntegerFieldWidget_init_def
      AdminCommaSeparatedIntegerFieldWidget_final_attrs_def
      final_attrs_with_defaults del: map_of.simps)

theorem admin_widget_defaults_overridden_witness:
  "is_dict (Some [(''class'', PyStr ''wide''), (''id'', PyStr ''d1'')])
   \<and> map_of (AdminDateWidget_final_attrs (Some [(''class'', PyStr ''wide''), (''id'', PyStr ''d1'')]))
         ''class'' = Some (PyStr ''wide'')
   \<and> map_of (AdminDateWidget_final_attrs (Some [(''class'', PyStr ''wide''), (''id'', PyStr ''d1'')]))
         ''size'' = Some (PyStr ''10'')
   \<and> map_of (AdminTextInputWidget_final_attrs (Some [(''class'', PyStr ''wide''), (''id'', PyStr ''d1'')]))
         ''class'' = Some (PyStr ''wide'')"
proof -
  have d: "is_dict (Some [(''class'', PyStr ''wide''), (''id'', PyStr ''d1'')])"
    by (simp add: is_dict_def)
  show ?thesis
    using d
      admin_widget_defaults_overridden [OF d, of "\<lambda>a f. a" "()" "''class''" "\<lambda>a. a"]
      admin_widget_defaults_overridden [OF d, of "\<lambda>a f. a" "()" "''size''" "\<lambda>a. a"]
    by (simp add: with_defaults_def)
qed

section \<open>Properties of the date and time widgets\<close>

lemma pct_format_date:
  \<open>pct_format
      (''<div class="input-group date bootstrap-datepicker"><span class="input-group-addon"><i class="fa fa-calendar"></i></span>%s''
       @ ''<span class="input-group-btn"><button class="btn btn-default" type="button">%s</button></span></div>'')
      [a, b]
    = Inr (''<div class="input-group date bootstrap-datepicker"><span class="input-group-addon"><i class="fa fa-calendar"></i></span>''
           @ a @ ''<span class="input-group-btn"><button class="btn btn-default" type="button">''
           @ b @ ''</button></span></div>'')\<close>
  by simp

lemma pct_format_time:
  \<open>pct_format
      (''<div class="input-group time bootstrap-clockpicker"><span class="input-group-addon"><i class="fa fa-clock-o">''
       @ ''</i></span>%s<span class="input-group-btn"><button class="btn btn-default" type="button">%s</button></span></div>'')
      [a, b]
    = Inr (''<div class="input-group time bootstrap-clockpicker"><span class="input-group-addon"><i class="fa fa-clock-o"></i></span>''
           @ a @ ''<span class="input-group-btn"><button class="btn btn-default" type="button">''
           @ b @ ''</button></span></div>'')\<close>
  by simp

lemma pct_format_datetime:
  \<open>pct_format ''<div class="datetime clearfix">%s%s</div>'' [a, b]
    = Inr (''<div class="datetime clearfix">'' @ a @ b @ ''</div>'')\<close>
  by simp

text \<open>
  C7. \<open>AdminDateWidget.render\<close> and \<open>AdminTimeWidget.render\<close> return, marked safe, the
  HTML of the base class's \<open>render\<close> unchanged between an opening part (the
  input-group div and the span with the icon) and a closing part (the span with the
  button, whose text is the translation of \<open>Today\<close> or \<open>Now\<close>); what the base class
  raises is raised. \<open>AdminSplitDateTime.format_output\<close> returns the first two rendered
  widgets, in order, inside \<open><div class="datetime clearfix">\<close>.
\<close>

theorem date_time_widgets_wrap_base_html:
  \<open>AdminDateWidget_render gettext super_render name val attrs =
     (case super_render name val attrs of
        Inl e \<Rightarrow> Inl e
      | Inr input_html \<Rightarrow>
          Inr (SafeText
            (''<div class="input-group date bootstrap-datepicker"><span class="input-group-addon"><i class="fa fa-calendar"></i></span>''
             @ py_str input_html
             @ ''<span class="input-group-btn"><button class="btn btn-default" type="button">''
             @ gettext ''Today'' @ ''</button></span></div>'')))
   \<and> AdminTimeWidget_render gettext super_render name val attrs =
     (case super_render name val attrs of
        Inl e \<Rightarrow> Inl e
      | Inr input_html \<Rightarrow>
          Inr (SafeText
            (''<div class="input-group time bootstrap-clockpicker"><span class="input-group-addon"><i class="fa fa-clock-o"></i></span>''
             @ py_str input_html
             @ ''<span class="input-group-btn"><button class="btn btn-default" type="button">''
             @ gettext ''Now'' @ ''</button></span></div>'')))
   \<and> format_output (r0 # r1 # rest) =
       Inr (SafeText (''<div class="datetime clearfix">'' @ py_str r0 @ py_str r1 @ ''</div>''))\<close>
proof -
  have d: \<open>AdminDateWidget_render gettext super_render name val attrs =
     (case super_render name val attrs of
        Inl e \<Rightarrow> Inl e
      | Inr input_html \<Rightarrow>
          Inr (SafeText
            (''<div class="input-group date bootstrap-datepicker"><span class="input-group-addon"><i class="fa fa-calendar"></i></span>''
             @ py_str input_html
             @ ''<span class="input-group-btn"><button class="btn btn-default" type="button">''
             @ gettext ''Today'' @ ''</button></span></div>'')))\<close>
    unfolding AdminDateWidget_render_def pct_format_date
    by (cases "super_render name val attrs") (simp_all add: mark_safe_def)
  have t: \<open>AdminTimeWidget_render gettext super_render name val attrs =
     (case super_render name val attrs of
        Inl e \<Rightarrow> Inl e
      | Inr input_html \<Rightarrow>
          Inr (SafeText
            (''<div class="input-group time bootstrap-clockpicker"><span class="input-group-addon"><i class="fa fa-clock-o"></i></span>''
             @ py_str input_html
             @ ''<span class="input-group-btn"><button class="btn btn-default" type="button">''
             @ gettext ''Now'' @ ''</button></span></div>'')))\<close>
    unfolding AdminTimeWidget_render_def pct_format_time
    by (cases "super_render name val attrs") (simp_all add: mark_safe_def)
  have f: \<open>format_output (r0 # r1 # rest) =
       Inr (SafeText (''<div class="datetime clearfix">'' @ py_str r0 @ py_str r1 @ ''</div>''))\<close>
    unfolding format_output_def pct_format_datetime
    by (simp add: list_getitem_def mark_safe_def)
  from d t f show ?thesis by blast
qed

section \<open>Properties of the choice inputs and their renderers\<close>

lemma format_html_input: \<open>format_html ''<input{0} />'' [SafeText f] = Inr (SafeText (''<input'' @ f @ '' />''))\<close>
  by (simp add: format_html_def str_format_def digit_val_def mark_safe_def)

lemma tag_Inr: "\<exists>t. fst (tag w h) = Inr (SafeText t)"
  by (simp add: tag_def Let_def flatatt_html format_html_input dict_contains_def dict_getitem_def
      split: option.splits)

lemma tag_frame:
  "next_free (snd (tag w h)) = next_free h
   \<and> (\<forall>a. a \<noteq> in_attrs w \<longrightarrow> cells (snd (tag w h)) a = cells h a)"
  by (simp add: tag_def Let_def flatatt_html format_html_input dict_contains_def dict_getitem_def
      store_item_def split: option.splits)

lemma tag_eq:
  "tag w h = (fst (tag_on w (cells h (in_attrs w))),
              h\<lparr>cells := (cells h)(in_attrs w := snd (tag_on w (cells h (in_attrs w))))\<rparr>)"
  by (simp add: tag_on_def unit_heap_def tag_def Let_def flatatt_html format_html_input dict_contains_def dict_getitem_def
      store_item_def is_checked_def split: option.splits)

lemma tag_on_attrs [simp]: "tag_on (w\<lparr>in_attrs := a\<rparr>) d = tag_on w d"
  by (simp add: tag_on_def)

lemma heap_cells_same [simp]: "h\<lparr>cells := (cells h)(a := cells h a)\<rparr> = h"
  by simp

lemma pct_label_for: \<open>pct_format '' for="%s_%s"'' [a, b] = Inr ('' for="'' @ a @ ''_'' @ b @ ''"'')\<close>
  by simp

lemma pct_inline_radio:
  \<open>pct_format ''<label%s class="radio-inline">%s %s</label>'' [a, b, c] = Inr (inline_radio a b c)\<close>
  by (simp add: inline_radio_def)

lemma pct_block_radio:
  \<open>pct_format ''<div class="radio"><label%s>%s %s</label></div>'' [a, b, c] = Inr (block_radio a b c)\<close>
  by (simp add: block_radio_def)

lemma format_html_label_for:
  \<open>format_html '' for="{0}_{1}"'' [a, b]
     = Inr (SafeText ('' for="'' @ py_str (conditional_escape a) @ ''_'' @ py_str (conditional_escape b) @ ''"''))\<close>
  by (simp add: format_html_def str_format_def digit_val_def mark_safe_def)

lemma format_html_label:
  \<open>format_html ''<label{0}>{1} {2}</label>'' [a, b, c]
     = Inr (SafeText (''<label'' @ py_str (conditional_escape a) @ ''>'' @ py_str (conditional_escape b)
          @ '' '' @ py_str (conditional_escape c) @ ''</label>''))\<close>
  by (simp add: format_html_def str_format_def digit_val_def mark_safe_def)

lemma input_str_eq:
  "input_str w h =
     (fst (input_str_on w (cells h (in_attrs w))),
      h\<lparr>cells := (cells h)(in_attrs w := snd (input_str_on w (cells h (in_attrs w))))\<rparr>)"
proof (cases "in_class w")
  case RadioChoiceInput
  then show ?thesis
    unfolding input_str_on_def input_str_def ChoiceInput_render_def format_html_label_for
      format_html_label tag_eq
    by (simp add: unit_heap_def Let_def split: sum.splits prod.splits)
next
  case AdminRadioInput
  then show ?thesis
    unfolding input_str_on_def input_str_def AdminRadioInput_render_def pct_label_for
      pct_inline_radio pct_block_radio tag_eq
    by (simp add: unit_heap_def Let_def effective_attrs_def store_item_def
        split: sum.splits prod.splits)
qed

lemma input_str_on_attrs [simp]: "input_str_on (w\<lparr>in_attrs := a\<rparr>) d = input_str_on w d"
  by (simp add: input_str_on_def)

lemma py_str_force_text [simp]: "py_str (force_text v) = py_str v"
  by (cases v) simp_all

lemma admin_radio_rendering_eq:
  "admin_radio_rendering self h ic =
     fst (input_str_on
            (RadioChoiceInput_init AdminRadioInput (rd_name self) (rd_value self) 0
               (snd ic) (int (fst ic)))
            (cells h (rd_attrs self)))"
proof -
  have c: "in_class (RadioChoiceInput_init AdminRadioInput n v a c i) = AdminRadioInput" for n v a c i
    by (simp add: RadioChoiceInput_init_def ChoiceInput_init_def Let_def)
  have a: "AdminRadioInput_render w None h' = input_str w h'" if "in_class w = AdminRadioInput" for w h'
    using that by (simp add: input_str_def)
  have i: "RadioChoiceInput_init cls n v a c i = (RadioChoiceInput_init cls n v 0 c i)\<lparr>in_attrs := a\<rparr>"
    for cls n v a c i
    by (simp add: RadioChoiceInput_init_def ChoiceInput_init_def Let_def)
  have ia: "in_attrs (RadioChoiceInput_init cls n v a c i) = a" for cls n v a c i
    by (simp add: RadioChoiceInput_init_def ChoiceInput_init_def Let_def)
  show ?thesis
    unfolding admin_radio_rendering_def dict_copy_def Let_def prod.case a [OF c] input_str_eq ia
    by (subst i) simp
qed

lemma AdminRadioFieldRenderer_items_eq:
  "rd_attrs self < next_free h \<Longrightarrow>
     fst (AdminRadioFieldRenderer_items self xs h)
       = bind_err (map_err (admin_radio_rendering self h) xs) (\<lambda>parts. Inr (map py_str parts))
     \<and> next_free h \<le> next_free (snd (AdminRadioFieldRenderer_items self xs h))
     \<and> (\<forall>a < next_free h. cells (snd (AdminRadioFieldRenderer_items self xs h)) a = cells h a)"
proof (induction xs arbitrary: h)
  case Nil
  then show ?case by simp
next
  case (Cons ic xs)
  obtain i choice where ic: "ic = (i, choice)" by (cases ic)
  define w where "w = RadioChoiceInput_init AdminRadioInput (rd_name self) (rd_value self)
      (next_free h) choice (int i)"
  define h1 where "h1 = snd (dict_copy (rd_attrs self) h)"
  define h2 where "h2 = snd (input_str w h1)"
  have inp: "AdminRadioFieldRenderer_input self choice (int i) h = (w, h1)"
    by (simp add: AdminRadioFieldRenderer_input_def dict_copy_def w_def h1_def)
  have wa: "in_attrs w = next_free h"
    by (simp add: w_def RadioChoiceInput_init_def ChoiceInput_init_def Let_def)
  have r: "fst (input_str w h1) = admin_radio_rendering self h ic"
    unfolding admin_radio_rendering_eq
    by (subst input_str_eq)
      (simp add: wa h1_def dict_copy_def w_def RadioChoiceInput_init_def ChoiceInput_init_def
        Let_def ic input_str_on_def)
  have n2: "next_free h2 = Suc (next_free h)"
    unfolding h2_def by (subst input_str_eq) (simp add: h1_def dict_copy_def)
  have c2: "cells h2 a = cells h a" if "a < next_free h" for a
    unfolding h2_def using that by (subst input_str_eq) (simp add: h1_def dict_copy_def wa)
  from Cons.prems n2 have lt2: "rd_attrs self < next_free h2" by simp
  note IH = Cons.IH [OF lt2]
  have same: "admin_radio_rendering self h2 = admin_radio_rendering self h"
    using c2 [OF Cons.prems] by (simp add: admin_radio_rendering_eq fun_eq_iff)
  have step: "AdminRadioFieldRenderer_items self (ic # xs) h =
      (case input_str w h1 of
         (Inl e, h2) \<Rightarrow> (Inl e, h2)
       | (Inr s, h2) \<Rightarrow>
           (case AdminRadioFieldRenderer_items self xs h2 of
              (Inl e, h3) \<Rightarrow> (Inl e, h3)
            | (Inr out, h3) \<Rightarrow> (Inr (py_str (force_text s) # out), h3)))"
    by (simp add: ic inp)
  show ?case
  proof (cases "input_str w h1")
    case (Pair res h2')
    then have h2': "h2' = h2" and res: "res = admin_radio_rendering self h ic"
      using r by (simp_all add: h2_def)
    show ?thesis
    proof (cases res)
      case (Inl e)
      have pr: "input_str w h1 = (Inl e, h2)"
        using Pair h2' Inl by simp
      have ar: "admin_radio_rendering self h ic = Inl e"
        using res Inl by simp
      show ?thesis
        using n2 c2 by (simp add: step pr ar)
    next
      case (Inr s)
      obtain r3 h3 where p3: "AdminRadioFieldRenderer_items self xs h2 = (r3, h3)"
        by (cases "AdminRadioFieldRenderer_items self xs h2")
      from IH p3 same have f3: "r3 = bind_err (map_err (admin_radio_rendering self h) xs)
             (\<lambda>parts. Inr (map py_str parts))"
        and n3: "next_free h2 \<le> next_free h3"
        and c3: "\<forall>a < next_free h2. cells h3 a = cells h2 a"
        by simp_all
      have pr: "input_str w h1 = (Inr s, h2)"
        using Pair h2' Inr by simp
      have ar: "admin_radio_rendering self h ic = Inr s"
        using res Inr by simp
      show ?thesis
        using p3 f3 n3 c3 n2 c2
        by (cases "map_err (admin_radio_rendering self h) xs") (simp_all add: step pr ar)
    qed
  qed
qed

lemma init_fields:
  "in_attrs (RadioChoiceInput_init cls n v a c i) = a"
  "in_class (RadioChoiceInput_init cls n v a c i) = cls"
  "RadioChoiceInput_init cls n v a c i = (RadioChoiceInput_init cls n v 0 c i)\<lparr>in_attrs := a\<rparr>"
  by (simp_all add: RadioChoiceInput_init_def ChoiceInput_init_def Let_def)

lemma radio_rendering_eq:
  "radio_rendering self h ic =
     fst (input_str_on
            (RadioChoiceInput_init RadioChoiceInput (rd_name self) (rd_value self) 0
               (snd ic) (int (fst ic)))
            (cells h (rd_attrs self)))"
proof -
  have a: "ChoiceInput_render w h' = input_str w h'" if "in_class w = RadioChoiceInput" for w h'
    using that by (simp add: input_str_def)
  show ?thesis
    unfolding radio_rendering_def dict_copy_def Let_def prod.case a [OF init_fields(2)]
      input_str_eq init_fields(1)
    by (subst init_fields(3)) simp
qed

lemma format_html_li:
  \<open>format_html ''<li>{0}</li>'' [a] = Inr (SafeText (''<li>'' @ py_str (conditional_escape a) @ ''</li>''))\<close>
  by (simp add: format_html_def str_format_def digit_val_def mark_safe_def)

lemma ChoiceFieldRenderer_items_eq:
  "rd_attrs self < next_free h \<Longrightarrow>
     fst (ChoiceFieldRenderer_items self xs h)
       = bind_err (map_err (radio_rendering self h) xs)
           (\<lambda>parts. Inr (map (\<lambda>p. ''<li>'' @ py_str (conditional_escape (force_text p)) @ ''</li>'') parts))
     \<and> next_free h \<le> next_free (snd (ChoiceFieldRenderer_items self xs h))
     \<and> (\<forall>a < next_free h. cells (snd (ChoiceFieldRenderer_items self xs h)) a = cells h a)"
proof (induction xs arbitrary: h)
  case Nil
  then show ?case by simp
next
  case (Cons ic xs)
  obtain i choice where ic: "ic = (i, choice)" by (cases ic)
  define w where "w = RadioChoiceInput_init RadioChoiceInput (rd_name self) (rd_value self)
      (next_free h) choice (int i)"
  define h1 where "h1 = snd (dict_copy (rd_attrs self) h)"
  define h2 where "h2 = snd (input_str w h1)"
  have inp: "ChoiceFieldRenderer_input self choice (int i) h = (w, h1)"
    by (simp add: ChoiceFieldRenderer_input_def dict_copy_def w_def h1_def choice_input_class_def)
  have wa: "in_attrs w = next_free h"
    by (simp add: w_def init_fields(1))
  have r: "fst (input_str w h1) = radio_rendering self h ic"
    unfolding radio_rendering_eq
    by (subst input_str_eq)
      (simp add: wa h1_def dict_copy_def w_def RadioChoiceInput_init_def ChoiceInput_init_def
        Let_def ic input_str_on_def)
  have n2: "next_free h2 = Suc (next_free h)"
    unfolding h2_def by (subst input_str_eq) (simp add: h1_def dict_copy_def)
  have c2: "cells h2 a = cells h a" if "a < next_free h" for a
    unfolding h2_def using that by (subst input_str_eq) (simp add: h1_def dict_copy_def wa)
  from Cons.prems n2 have lt2: "rd_attrs self < next_free h2" by simp
  note IH = Cons.IH [OF lt2]
  have same: "radio_rendering self h2 = radio_rendering self h"
    using c2 [OF Cons.prems] by (simp add: radio_rendering_eq fun_eq_iff)
  have step: "ChoiceFieldRenderer_items self (ic # xs) h =
      (case input_str w h1 of
         (Inl e, h2) \<Rightarrow> (Inl e, h2)
       | (Inr s, h2) \<Rightarrow>
           (case ChoiceFieldRenderer_items self xs h2 of
              (Inl e, h3) \<Rightarrow> (Inl e, h3)
            | (Inr out, h3) \<Rightarrow>
                (Inr ((''<li>'' @ py_str (conditional_escape (force_text s)) @ ''</li>'') # out), h3)))"
    by (simp add: ic inp format_html_li split: prod.splits sum.splits)
  show ?case
  proof (cases "input_str w h1")
    case (Pair res h2')
    then have h2': "h2' = h2" and res: "res = radio_rendering self h ic"
      using r by (simp_all add: h2_def)
    show ?thesis
    proof (cases res)
      case (Inl e)
      have pr: "input_str w h1 = (Inl e, h2)"
        using Pair h2' Inl by simp
      have ar: "radio_rendering self h ic = Inl e"
        using res Inl by simp
      show ?thesis
        using n2 c2 by (simp add: step pr ar)
    next
      case (Inr s)
      obtain r3 h3 where p3: "ChoiceFieldRenderer_items self xs h2 = (r3, h3)"
        by (cases "ChoiceFieldRenderer_items self xs h2")
      from IH p3 same have f3: "r3 = bind_err (map_err (radio_rendering self h) xs)
             (\<lambda>parts. Inr (map (\<lambda>p. ''<li>'' @ py_str (conditional_escape (force_text p)) @ ''</li>'') parts))"
        and n3: "next_free h2 \<le> next_free h3"
        and c3: "\<forall>a < next_free h2. cells h3 a = cells h2 a"
        by simp_all
      have pr: "input_str w h1 = (Inr s, h2)"
        using Pair h2' Inr by simp
      have ar: "radio_rendering self h ic = Inr s"
        using res Inr by simp
      show ?thesis
        using p3 f3 n3 c3 n2 c2
        by (cases "map_err (radio_rendering self h) xs") (simp_all add: step pr ar)
    qed
  qed
qed

lemma input_frame:
  "rd_attrs self < next_free h \<Longrightarrow>
     (case ChoiceFieldRenderer_input self choice i h of
        (w, h1) \<Rightarrow>
          in_attrs w \<noteq> rd_attrs self
          \<and> cells h1 (in_attrs w) = cells h (rd_attrs self)
          \<and> cells h1 (rd_attrs self) = cells h (rd_attrs self)
          \<and> cells (snd (tag w h1)) (rd_attrs self) = cells h (rd_attrs self)
          \<and> cells (snd (input_str w h1)) (rd_attrs self) = cells h (rd_attrs self))
   \<and> (case AdminRadioFieldRenderer_input self choice i h of
        (w, h1) \<Rightarrow>
          in_attrs w \<noteq> rd_attrs self
          \<and> cells h1 (in_attrs w) = cells h (rd_attrs self)
          \<and> cells h1 (rd_attrs self) = cells h (rd_attrs self)
          \<and> cells (snd (tag w h1)) (rd_attrs self) = cells h (rd_attrs self)
          \<and> cells (snd (input_str w h1)) (rd_attrs self) = cells h (rd_attrs self))"
  by (simp add: ChoiceFieldRenderer_input_def AdminRadioFieldRenderer_input_def dict_copy_def
      tag_eq input_str_eq init_fields(1))

text \<open>
  C8. When the renderer's attrs is a dict of the store, \<open>AdminRadioFieldRenderer.render\<close>
  returns the newline-join of the renderings of one \<open>AdminRadioInput\<close> per choice, in
  the order of the choices and with the indices 0, 1, ...; each input gets the
  renderer's name and value and its own copy of the renderer's attrs, so every
  rendering is the one the input would give on the store as it was at the start. The
  first input that raises ends the rendering with its exception. Nothing is put around
  the renderings, whereas \<open>ChoiceFieldRenderer.render\<close> puts each one into \<open><li>\<close> and
  the list between \<open><ul>\<close> (with the id, if there is one) and \<open></ul>\<close>.
\<close>

theorem admin_renderer_joins_inputs:
  \<open>rd_attrs self < next_free h \<Longrightarrow>
     fst (AdminRadioFieldRenderer_render self h)
       = bind_err (map_err (admin_radio_rendering self h) (enumerate 0 (rd_choices self)))
           (\<lambda>parts. Inr (SafeText (str_join [CHR 0x0A] (map py_str parts))))
     \<and> fst (ChoiceFieldRenderer_render self h)
       = bind_err
           (if truthy (dict_get (cells h (rd_attrs self)) ''id'' PyNone)
            then Inr (''<ul id="''
                      @ py_str (conditional_escape (dict_get (cells h (rd_attrs self)) ''id'' PyNone))
                      @ ''">'')
            else Inr ''<ul>'')
           (\<lambda>start_tag.
              bind_err (map_err (radio_rendering self h) (enumerate 0 (rd_choices self)))
                (\<lambda>parts. Inr (SafeText (str_join [CHR 0x0A]
                   ([start_tag]
                    @ map (\<lambda>p. ''<li>'' @ py_str (conditional_escape (force_text p)) @ ''</li>'') parts
                    @ [''</ul>''])))))\<close>
proof -
  assume lt: "rd_attrs self < next_free h"
  have ul: \<open>format_html ''<ul id="{0}">'' [a] = Inr (SafeText (''<ul id="'' @ py_str (conditional_escape a) @ ''">''))\<close> for a
    by (simp add: format_html_def str_format_def digit_val_def mark_safe_def)
  have a: "fst (AdminRadioFieldRenderer_render self h)
       = bind_err (map_err (admin_radio_rendering self h) (enumerate 0 (rd_choices self)))
           (\<lambda>parts. Inr (SafeText (str_join [CHR 0x0A] (map py_str parts))))"
    using AdminRadioFieldRenderer_items_eq [OF lt, of "enumerate 0 (rd_choices self)"]
    by (cases "map_err (admin_radio_rendering self h) (enumerate 0 (rd_choices self))")
      (auto simp: AdminRadioFieldRenderer_render_def mark_safe_def split: prod.splits sum.splits)
  have b: \<open>fst (ChoiceFieldRenderer_render self h)
       = bind_err
           (if truthy (dict_get (cells h (rd_attrs self)) ''id'' PyNone)
            then Inr (''<ul id="''
                      @ py_str (conditional_escape (dict_get (cells h (rd_attrs self)) ''id'' PyNone))
                      @ ''">'')
            else Inr ''<ul>'')
           (\<lambda>start_tag.
              bind_err (map_err (radio_rendering self h) (enumerate 0 (rd_choices self)))
                (\<lambda>parts. Inr (SafeText (str_join [CHR 0x0A]
                   ([start_tag]
                    @ map (\<lambda>p. ''<li>'' @ py_str (conditional_escape (force_text p)) @ ''</li>'') parts
                    @ [''</ul>''])))))\<close>
    using ChoiceFieldRenderer_items_eq [OF lt, of "enumerate 0 (rd_choices self)"]
    by (cases "map_err (radio_rendering self h) (enumerate 0 (rd_choices self))")
      (auto simp: ChoiceFieldRenderer_render_def ul mark_safe_def Let_def split: prod.splits sum.splits)
  from a b show ?thesis by blast
qed

theorem admin_renderer_joins_inputs_witness:
  \<open>rd_attrs \<lparr>rd_class = AdminRadioFieldRenderer, rd_name = PyStr ''color'', rd_value = PyInt 2,
          rd_attrs = 0, rd_choices = [(PyInt 1, PyStr ''One''), (PyInt 2, PyStr ''A<B'')]\<rparr>
     < next_free \<lparr>cells = (\<lambda>a. [(''id'', PyStr ''c'')]), next_free = 1\<rparr>
   \<and> fst (AdminRadioFieldRenderer_render
         \<lparr>rd_class = AdminRadioFieldRenderer, rd_name = PyStr ''color'', rd_value = PyInt 2,
          rd_attrs = 0, rd_choices = [(PyInt 1, PyStr ''One''), (PyInt 2, PyStr ''A<B'')]\<rparr>
         \<lparr>cells = (\<lambda>a. [(''id'', PyStr ''c'')]), next_free = 1\<rparr>)
     = Inr (SafeText
        (''<div class="radio"><label for="c_0"><input class="" id="c_0" name="color" type="radio" value="1" /> One</label></div>''
         @ [CHR 0x0A]
         @ ''<div class="radio"><label for="c_1"><input checked="checked" class="" id="c_1" name="color" type="radio" value="2" /> A&lt;B</label></div>''))\<close>
  (is "rd_attrs ?R < next_free ?H \<and> _ = ?out")
proof -
  have lt: "rd_attrs ?R < next_free ?H"
    by simp
  have v: "bind_err (map_err (admin_radio_rendering ?R ?H) (enumerate 0 (rd_choices ?R)))
      (\<lambda>parts. Inr (SafeText (str_join [CHR 0x0A] (map py_str parts)))) = ?out"
    by code_simp
  show ?thesis
    by (rule conjI [OF lt trans [OF conjunct1 [OF admin_renderer_joins_inputs [OF lt]] v]])
qed

text \<open>
  C9. When the renderer's attrs is a dict of the store, the renderer's dict is the same
  after a full \<open>render()\<close> as before, for the base renderer and for the admin renderer.
  The input that \<open>__iter__\<close> yields or \<open>__getitem__\<close> returns refers to another dict, a
  copy with the same entries; making it leaves the renderer's dict as it is, and so do
  \<open>tag\<close> and \<open>render\<close> of the input, which store into the copy. \<open>__getitem__\<close> with an
  index outside the choices raises and leaves the store as it is.
\<close>

theorem renderer_attrs_not_mutated:
  "rd_attrs self < next_free h \<Longrightarrow>
     cells (snd (ChoiceFieldRenderer_render self h)) (rd_attrs self) = cells h (rd_attrs self)
   \<and> cells (snd (AdminRadioFieldRenderer_render self h)) (rd_attrs self) = cells h (rd_attrs self)
   \<and> cells (snd (renderer_render self h)) (rd_attrs self) = cells h (rd_attrs self)
   \<and> (case ChoiceFieldRenderer_input self choice i h of
        (w, h1) \<Rightarrow>
          in_attrs w \<noteq> rd_attrs self
          \<and> cells h1 (in_attrs w) = cells h (rd_attrs self)
          \<and> cells h1 (rd_attrs self) = cells h (rd_attrs self)
          \<and> cells (snd (tag w h1)) (rd_attrs self) = cells h (rd_attrs self)
          \<and> cells (snd (input_str w h1)) (rd_attrs self) = cells h (rd_attrs self))
   \<and> (case AdminRadioFieldRenderer_input self choice i h of
        (w, h1) \<Rightarrow>
          in_attrs w \<noteq> rd_attrs self
          \<and> cells h1 (in_attrs w) = cells h (rd_attrs self)
          \<and> cells h1 (rd_attrs self) = cells h (rd_attrs self)
          \<and> cells (snd (tag w h1)) (rd_attrs self) = cells h (rd_attrs self)
          \<and> cells (snd (input_str w h1)) (rd_attrs self) = cells h (rd_attrs self))
   \<and> (case renderer_getitem self idx h of
        (Inl e, h1) \<Rightarrow> h1 = h
      | (Inr w, h1) \<Rightarrow>
          in_attrs w \<noteq> rd_attrs self
          \<and> cells h1 (in_attrs w) = cells h (rd_attrs self)
          \<and> cells h1 (rd_attrs self) = cells h (rd_attrs self)
          \<and> cells (snd (tag w h1)) (rd_attrs self) = cells h (rd_attrs self)
          \<and> cells (snd (input_str w h1)) (rd_attrs self) = cells h (rd_attrs self))"
proof -
  assume lt: "rd_attrs self < next_free h"
  have base: "cells (snd (ChoiceFieldRenderer_render self h)) (rd_attrs self) = cells h (rd_attrs self)"
    using ChoiceFieldRenderer_items_eq [OF lt, of "enumerate 0 (rd_choices self)"] lt
    by (auto simp: ChoiceFieldRenderer_render_def Let_def split: prod.splits sum.splits if_splits)
  have admin: "cells (snd (AdminRadioFieldRenderer_render self h)) (rd_attrs self) = cells h (rd_attrs self)"
    using AdminRadioFieldRenderer_items_eq [OF lt, of "enumerate 0 (rd_choices self)"] lt
    by (auto simp: AdminRadioFieldRenderer_render_def split: prod.splits sum.splits)
  have disp: "cells (snd (renderer_render self h)) (rd_attrs self) = cells h (rd_attrs self)"
    using base admin by (cases "rd_class self") (simp_all add: renderer_render_def)
  note inp = input_frame [OF lt]
  have get: "(case renderer_getitem self idx h of
        (Inl e, h1) \<Rightarrow> h1 = h
      | (Inr w, h1) \<Rightarrow>
          in_attrs w \<noteq> rd_attrs self
          \<and> cells h1 (in_attrs w) = cells h (rd_attrs self)
          \<and> cells h1 (rd_attrs self) = cells h (rd_attrs self)
          \<and> cells (snd (tag w h1)) (rd_attrs self) = cells h (rd_attrs self)
          \<and> cells (snd (input_str w h1)) (rd_attrs self) = cells h (rd_attrs self))"
  proof (cases "list_getitem (rd_choices self) idx")
    case (Inl e)
    then show ?thesis
      by (cases "rd_class self")
        (simp_all add: renderer_getitem_def ChoiceFieldRenderer_getitem_def
          AdminRadioFieldRenderer_getitem_def)
  next
    case (Inr c)
    show ?thesis
      using inp [of c idx] Inr
      by (cases "rd_class self")
        (auto simp: renderer_getitem_def ChoiceFieldRenderer_getitem_def
          AdminRadioFieldRenderer_getitem_def split: prod.splits)
  qed
  show ?thesis
    by (intro conjI base admin disp get conjunct1 [OF inp [of choice i]]
        conjunct2 [OF inp [of choice i]])
qed

theorem renderer_attrs_not_mutated_witness:
  \<open>rd_attrs \<lparr>rd_class = AdminRadioFieldRenderer, rd_name = PyStr ''color'', rd_value = PyInt 2,
          rd_attrs = 0, rd_choices = [(PyInt 1, PyStr ''One''), (PyInt 2, PyStr ''A<B'')]\<rparr>
     < next_free \<lparr>cells = (\<lambda>a. [(''id'', PyStr ''c'')]), next_free = 1\<rparr>
   \<and> cells (snd (renderer_render
         \<lparr>rd_class = AdminRadioFieldRenderer, rd_name = PyStr ''color'', rd_value = PyInt 2,
          rd_attrs = 0, rd_choices = [(PyInt 1, PyStr ''One''), (PyInt 2, PyStr ''A<B'')]\<rparr>
         \<lparr>cells = (\<lambda>a. [(''id'', PyStr ''c'')]), next_free = 1\<rparr>)) 0
     = [(''id'', PyStr ''c'')]
   \<and> cells (snd (renderer_render
         \<lparr>rd_class = AdminRadioFieldRenderer, rd_name = PyStr ''color'', rd_value = PyInt 2,
          rd_attrs = 0, rd_choices = [(PyInt 1, PyStr ''One''), (PyInt 2, PyStr ''A<B'')]\<rparr>
         \<lparr>cells = (\<lambda>a. [(''id'', PyStr ''c'')]), next_free = 1\<rparr>)) 1
     = [(''id'', PyStr ''c_0''), (''class'', PyStr '''')]\<close>
  (is "rd_attrs ?R < next_free ?H \<and> ?c0 \<and> ?c1")
proof -
  have lt: "rd_attrs ?R < next_free ?H"
    by simp
  have c0: ?c0
    using renderer_attrs_not_mutated [OF lt] by simp
  have c1: ?c1
    by code_simp
  from lt c0 c1 show ?thesis by (intro conjI)
qed

section \<open>Properties of the checkbox widget\<close>

lemma str_format_auto_pair: \<open>str_format '' {}="{}"'' [a, b] = Inr ('' '' @ a @ ''="'' @ b @ ''"'')\<close>
  by (simp add: str_format_def digit_val_def)

lemma str_format_auto_key: \<open>str_format '' {}'' [a] = Inr ('' '' @ a)\<close>
  by (simp add: str_format_def digit_val_def)

lemma forms_flatatt_pairs:
  \<open>map_err (format_html '' {}="{}"'') (map (\<lambda>(k, v). [PyStr k, v]) kvs)
     = Inr (map (\<lambda>kv. SafeText (flatatt_fragment kv)) kvs)\<close>
proof (induction kvs)
  case Nil
  then show ?case by simp
next
  case (Cons kv kvs)
  obtain k v where kv: "kv = (k, v)" by (cases kv)
  show ?case
    using Cons.IH
    by (simp add: kv format_html_def str_format_auto_pair flatatt_fragment_def mark_safe_def)
qed

lemma forms_flatatt_keys:
  \<open>map_err (format_html '' {}'') (map (\<lambda>k. [PyStr k]) ks)
     = Inr (map (\<lambda>k. SafeText ('' '' @ py_str (conditional_escape (PyStr k)))) ks)\<close>
  by (induction ks) (simp_all add: format_html_def str_format_auto_key mark_safe_def)

lemma forms_flatatt_total: "forms_flatatt d = Inr (SafeText (forms_flatatt_html d))"
  by (simp add: forms_flatatt_def forms_flatatt_html_def format_html_join_def sorted_items_def
      forms_flatatt_pairs forms_flatatt_keys escape_empty str_join_empty_sep mark_safe_def
      comp_def Let_def)

lemma format_html_input_auto:
  \<open>format_html ''<input{} />'' [SafeText f] = Inr (SafeText (''<input'' @ f @ '' />''))\<close>
  by (simp add: format_html_def str_format_def digit_val_def mark_safe_def)

lemma is_text_force_text [simp]: "is_text (force_text v)"
  by (cases v) simp_all

lemma CheckboxInput_render_text:
  "is_text v \<Longrightarrow>
     CheckboxInput_render d check_test name v
       = Inr (SafeText (checkbox_input d name v (check_test v)))"
  by (cases v)
    (simp_all add: CheckboxInput_render_def checkbox_input_def checkbox_input_attrs_def
      build_attrs_def Let_def
      forms_flatatt_total format_html_input_auto py_eq_def)

lemma pct_id: \<open>pct_format ''%s_%s'' [a, b] = Inr (a @ ''_'' @ b)\<close>
  by simp

lemma pct_for: \<open>pct_format '' for="%s"'' [a] = Inr ('' for="'' @ a @ ''"'')\<close>
  by simp

lemma pct_inline_checkbox:
  \<open>pct_format ''<label%s class="checkbox-inline">%s %s</label>'' [a, b, c]
     = Inr (inline_checkbox a b c)\<close>
  by (simp add: inline_checkbox_def)

lemma pct_block_checkbox:
  \<open>pct_format ''<div class="checkbox"><label%s>%s %s</label></div>'' [a, b, c]
     = Inr (block_checkbox a b c)\<close>
  by (simp add: block_checkbox_def)

lemma dict_get_setitem_other:
  "k \<noteq> k' \<Longrightarrow> dict_get (dict_setitem d k v) k' dflt = dict_get d k' dflt"
  by (simp add: dict_get_def dict_setitem_def update_conv')

lemma dict_getitem_setitem: "dict_getitem (dict_setitem d k v) k = Inr v"
  by (simp add: dict_getitem_def dict_setitem_def update_conv')

lemma has_own_id_iff: "has_own_id attrs \<longleftrightarrow> own_id attrs \<noteq> None"
  by (cases attrs) (auto simp: has_own_id_def own_id_def dict_contains_def)

lemma checkbox_option_no_id:
  assumes "own_id attrs = None"
  shows "checkbox_option name attrs (has_own_id attrs) sv base i option
           = Inr (base, labelled_checkbox base attrs name sv (i, option))"
proof -
  from assms have h: "\<not> has_own_id attrs" by (simp add: has_own_id_iff)
  from assms have o: "(case attrs of None \<Rightarrow> None | Some a \<Rightarrow> map_of a ''id'') = None"
    by (simp add: own_id_def)
  show ?thesis
    unfolding checkbox_option_def pct_inline_checkbox pct_block_checkbox
    by (simp add: h o labelled_checkbox_def Let_def CheckboxInput_render_text label_html_def)
qed

lemma checkbox_option_id:
  assumes "own_id attrs = Some v"
    and "\<And>x. dict_setitem fa ''id'' x = dict_setitem base ''id'' x"
  shows "checkbox_option name attrs (has_own_id attrs) sv fa i option
           = Inr (dict_setitem base ''id'' (PyStr (py_str v @ ''_'' @ str_of_nat i)),
                  labelled_checkbox base attrs name sv (i, option))"
proof -
  from assms(1) have h: "has_own_id attrs" by (simp add: has_own_id_iff)
  from assms(1) have o: "(case attrs of None \<Rightarrow> None | Some a \<Rightarrow> map_of a ''id'') = Some v"
    by (simp add: own_id_def)
  from assms(1) have g: "attrs_getitem attrs ''id'' = Inr v"
    by (cases attrs) (simp_all add: own_id_def attrs_getitem_def dict_getitem_def)
  show ?thesis
    unfolding checkbox_option_def pct_inline_checkbox pct_block_checkbox pct_id pct_for
    by (simp add: h o g assms(2) labelled_checkbox_def Let_def CheckboxInput_render_text
        label_html_def dict_getitem_setitem dict_get_setitem_other)
qed

lemma checkbox_loop_eq:
  assumes "own_id attrs = None \<longrightarrow> fa = base"
    and "\<And>x. dict_setitem fa ''id'' x = dict_setitem base ''id'' x"
  shows "checkbox_loop name attrs (has_own_id attrs) sv xs fa out
           = Inr (out @ map (labelled_checkbox base attrs name sv) xs)"
  using assms
proof (induction xs arbitrary: fa out)
  case Nil
  then show ?case by simp
next
  case (Cons ic xs)
  obtain i option where ic: "ic = (i, option)" by (cases ic)
  show ?case
  proof (cases "own_id attrs")
    case None
    with Cons.prems have fa: "fa = base" by simp
    show ?thesis
      using Cons.IH [of base "out @ [labelled_checkbox base attrs name sv (i, option)]"]
      by (simp add: ic fa checkbox_option_no_id [OF None])
  next
    case (Some v)
    let ?d = "dict_setitem base ''id'' (PyStr (py_str v @ ''_'' @ str_of_nat i))"
    have d: "dict_setitem ?d ''id'' x = dict_setitem base ''id'' x" for x
      by (simp add: dict_setitem_def)
    show ?thesis
      using Cons.IH [of ?d "out @ [labelled_checkbox base attrs name sv (i, option)]"] d Some
      by (simp add: ic checkbox_option_id [OF Some Cons.prems(2)])
  qed
qed

lemma AdminCheckboxSelect_render_eq:
  "AdminCheckboxSelect_render self name val attrs choices
     = Inr (SafeText (str_join [CHR 0x0A]
         (map (labelled_checkbox (build_attrs (cs_attrs self) attrs []) attrs name
                 (selected_texts val))
            (enumerate 0 (cs_choices self @ choices)))))"
proof -
  have l: "checkbox_loop name attrs (has_own_id attrs) sv xs base []
      = Inr (map (labelled_checkbox base attrs name sv) xs)" for sv xs base
    using checkbox_loop_eq [of attrs base base name sv xs "[]"] by simp
  have s: "set (map (\<lambda>v. py_str (force_text v)) (case val of None \<Rightarrow> [] | Some vs \<Rightarrow> vs))
      = selected_texts val"
    by (cases val) (simp_all add: selected_texts_def)
  show ?thesis
    unfolding AdminCheckboxSelect_render_def Let_def s has_own_id_def [symmetric] l
    by (simp add: mark_safe_def)
qed

section \<open>Layout and labels\<close>

lemma tag_on_Inr: "\<exists>t. fst (tag_on w d) = Inr (SafeText t)"
  using tag_Inr [of "w\<lparr>in_attrs := 0\<rparr>" "unit_heap d"]
  by (auto simp: tag_on_def split: prod.splits)

lemma AdminRadioInput_render_layout:
  assumes "class_is_text (cells h (effective_attrs w attrs_arg h))"
  shows "\<exists>input_tag.
     fst (AdminRadioInput_render w attrs_arg h) = Inr (SafeText
       (if truthy (dict_get (cells h (effective_attrs w attrs_arg h)) ''inline'' (PyBool False))
        then inline_radio (radio_label_for (cells h (in_attrs w)) (in_index w)) input_tag
               (label_html (choice_label w))
        else block_radio (radio_label_for (cells h (in_attrs w)) (in_index w)) input_tag
               (label_html (choice_label w))))"
proof -
  let ?e = "effective_attrs w attrs_arg h"
  from assms obtain cls where
    cls: "method_replace (dict_get (cells h ?e) ''class'' (PyStr '''')) ''form-control'' ''''
            = Inr (PyStr cls)"
    by (auto simp: class_is_text_def dict_get_def split: option.splits pyval.splits)
  define h1 where "h1 = store_item ?e ''class'' (PyStr cls) h"
  have idl: "map_of (cells h1 (in_attrs w)) ''id'' = map_of (cells h (in_attrs w)) ''id''"
    by (simp add: h1_def store_item_def dict_setitem_def update_conv')
  have lf: \<open>(if dict_contains (cells h1 (in_attrs w)) ''id'' then
            bind_err (dict_getitem (cells h1 (in_attrs w)) ''id'') (\<lambda>i.
              pct_format '' for="%s_%s"'' [py_str i, str_of_int (in_index w)])
          else Inr '''') = Inr (radio_label_for (cells h (in_attrs w)) (in_index w))\<close>
    unfolding pct_label_for
    by (simp add: dict_contains_def dict_getitem_def idl radio_label_for_def split: option.splits)
  have inl: "dict_get (cells h1 ?e) ''inline'' (PyBool False)
      = dict_get (cells h ?e) ''inline'' (PyBool False)"
    by (simp add: h1_def store_item_def dict_get_setitem_other)
  obtain t h2 where t: "tag w h1 = (Inr (SafeText t), h2)"
    using tag_Inr [of w h1] by (cases "tag w h1") auto
  have "fst (AdminRadioInput_render w attrs_arg h) = Inr (SafeText
       (if truthy (dict_get (cells h ?e) ''inline'' (PyBool False))
        then inline_radio (radio_label_for (cells h (in_attrs w)) (in_index w)) t
               (label_html (choice_label w))
        else block_radio (radio_label_for (cells h (in_attrs w)) (in_index w)) t
               (label_html (choice_label w))))"
    unfolding AdminRadioInput_render_def Let_def cls sum.case h1_def [symmetric] lf inl t
      prod.case pct_inline_radio pct_block_radio
    by (simp add: label_html_def mark_safe_def)
  then show ?thesis by blast
qed

lemma labelled_checkbox_layout:
  "\<exists>d label_for.
     labelled_checkbox base attrs name sv (i, ov, ol) =
       (if truthy (dict_get base ''inline'' (PyBool False))
        then inline_checkbox label_for
               (checkbox_input d name (force_text ov) (py_str (force_text ov) \<in> sv)) (label_html ol)
        else block_checkbox label_for
               (checkbox_input d name (force_text ov) (py_str (force_text ov) \<in> sv)) (label_html ol))"
  unfolding labelled_checkbox_def Let_def fst_conv snd_conv
  by (intro exI) (rule refl)

lemma label_html_force_text: "label_html (force_text l) = label_html l"
  by (cases l) (simp_all add: label_html_def)

lemma label_html_cases:
  "label_html l = (if is_safe l then py_str l else concat (map escape_char (py_str l)))"
  by (cases l) (simp_all add: label_html_def escape_chars)

lemma label_html_no_special:
  "\<not> is_safe l \<Longrightarrow> set (label_html l) \<inter> {CHR ''<'', CHR ''>'', CHR 0x22, CHR 0x27} = {}"
proof -
  assume "\<not> is_safe l"
  then have "label_html l = concat (map escape_char (py_str l))"
    by (simp add: label_html_cases)
  moreover have "set (concat (map escape_char s)) \<inter> {CHR ''<'', CHR ''>'', CHR 0x22, CHR 0x27} = {}" for s
    by (induction s) (auto simp: escape_char_def split: if_splits)
  ultimately show ?thesis by simp
qed

lemma labelled_checkbox_explicit:
  "labelled_checkbox base attrs name sv (i, ov, ol) =
     (if truthy (dict_get base ''inline'' (PyBool False))
      then inline_checkbox (option_label_for attrs i)
             (checkbox_input (option_attrs base attrs i) name (force_text ov)
                (py_str (force_text ov) \<in> sv))
             (label_html ol)
      else block_checkbox (option_label_for attrs i)
             (checkbox_input (option_attrs base attrs i) name (force_text ov)
                (py_str (force_text ov) \<in> sv))
             (label_html ol))"
proof (cases "own_id attrs")
  case None
  then have "(case attrs of None \<Rightarrow> None | Some a \<Rightarrow> map_of a ''id'') = None"
    by (simp add: own_id_def)
  then show ?thesis
    by (simp add: labelled_checkbox_def option_attrs_def option_label_for_def None Let_def)
next
  case (Some v)
  then have "(case attrs of None \<Rightarrow> None | Some a \<Rightarrow> map_of a ''id'') = Some v"
    by (simp add: own_id_def)
  then show ?thesis
    by (simp add: labelled_checkbox_def option_attrs_def option_label_for_def Some Let_def)
qed

lemma checkbox_input_attrs_checked:
  "map_of (checkbox_input_attrs d name v c) ''checked''
     = (if c then Some (PyStr ''checked'') else map_of d ''checked'')"
  by (simp add: checkbox_input_attrs_def Let_def dict_setitem_def update_conv')

lemma option_attrs_checked:
  "map_of (option_attrs base attrs i) ''checked'' = map_of base ''checked''"
  by (cases "own_id attrs") (simp_all add: option_attrs_def dict_setitem_def update_conv')

lemma option_checked_entry:
  "map_of (checkbox_input_attrs (option_attrs base attrs i) name v c) ''checked''
     = (if c then Some (PyStr ''checked'') else map_of base ''checked'')"
  by (simp add: checkbox_input_attrs_checked option_attrs_checked)

lemma option_rendered_checked:
  "map_of base ''checked'' = None \<Longrightarrow>
     rendered_checked (checkbox_input_attrs (option_attrs base attrs i) name v c) = c"
  by (simp add: rendered_checked_def option_checked_entry)

section \<open>The claims about the radio and checkbox widgets\<close>

text \<open>
  C3, as the code has it. For every name, list of selected values (or \<open>None\<close>), attrs
  and extra choices, \<open>AdminCheckboxSelect.render\<close> never raises and returns, marked
  safe, the newline-join of one labelled checkbox per option: the options are the
  widget's own choices followed by the extra choices, in order, paired with the indices
  0, 1, ... . The widget sets \<open>checked\<close> on the checkbox of an option exactly when the
  text of the option's value is among the texts of the selected values; on every other
  checkbox the \<open>checked\<close> entry is the one of the effective attrs (the widget's attrs
  updated with the attrs of the call), if they have one. So when the effective attrs
  have no \<open>checked\<close> entry, a checkbox is rendered checked if and only if the text of
  its option's value is among the texts of the selected values.
\<close>

theorem checkbox_select_renders_each_option:
  \<open>AdminCheckboxSelect_render self name val attrs choices
     = Inr (SafeText (str_join [CHR 0x0A]
         (map (labelled_checkbox (build_attrs (cs_attrs self) attrs []) attrs name
                 (selected_texts val))
            (zip [0 ..< length (cs_choices self @ choices)] (cs_choices self @ choices)))))
   \<and> labelled_checkbox (build_attrs (cs_attrs self) attrs []) attrs name (selected_texts val)
          (i, option_value, option_label) =
        (if truthy (dict_get (build_attrs (cs_attrs self) attrs []) ''inline'' (PyBool False))
         then inline_checkbox (option_label_for attrs i)
                (checkbox_input (option_attrs (build_attrs (cs_attrs self) attrs []) attrs i) name
                   (force_text option_value)
                   (py_str (force_text option_value) \<in> selected_texts val))
                (label_html option_label)
         else block_checkbox (option_label_for attrs i)
                (checkbox_input (option_attrs (build_attrs (cs_attrs self) attrs []) attrs i) name
                   (force_text option_value)
                   (py_str (force_text option_value) \<in> selected_texts val))
                (label_html option_label))
   \<and> map_of (checkbox_input_attrs (option_attrs (build_attrs (cs_attrs self) attrs []) attrs i)
               name (force_text option_value)
               (py_str (force_text option_value) \<in> selected_texts val)) ''checked''
       = (if py_str (force_text option_value) \<in> selected_texts val
          then Some (PyStr ''checked'')
          else map_of (build_attrs (cs_attrs self) attrs []) ''checked'')
   \<and> (map_of (build_attrs (cs_attrs self) attrs []) ''checked'' = None \<longrightarrow>
        rendered_checked
          (checkbox_input_attrs (option_attrs (build_attrs (cs_attrs self) attrs []) attrs i)
             name (force_text option_value)
             (py_str (force_text option_value) \<in> selected_texts val))
        = (py_str (force_text option_value) \<in> selected_texts val))
   \<and> selected_texts (Some vs) = set (map (\<lambda>v. py_str (force_text v)) vs)
   \<and> selected_texts None = {}\<close>
proof -
  have r: "AdminCheckboxSelect_render self name val attrs choices
     = Inr (SafeText (str_join [CHR 0x0A]
         (map (labelled_checkbox (build_attrs (cs_attrs self) attrs []) attrs name
                 (selected_texts val))
            (zip [0 ..< length (cs_choices self @ choices)] (cs_choices self @ choices)))))"
    using AdminCheckboxSelect_render_eq [of self name val attrs choices]
    by (simp add: enumerate_eq_zip)
  have s: "selected_texts (Some vs) = set (map (\<lambda>v. py_str (force_text v)) vs)"
    "selected_texts None = {}"
    by (simp_all add: selected_texts_def)
  show ?thesis
    by (intro conjI impI r labelled_checkbox_explicit option_checked_entry
        option_rendered_checked s)
qed

theorem checkbox_select_renders_each_option_witness:
  \<open>map_of (build_attrs
             (cs_attrs \<lparr>cs_attrs = [(''inline'', PyBool True)],
                         cs_choices = [(PyInt 1, PyStr ''One'')]\<rparr>)
             (Some [(''id'', PyStr ''t'')]) []) ''checked'' = None
   \<and> rendered_checked
        (checkbox_input_attrs
           (option_attrs
              (build_attrs
                 (cs_attrs \<lparr>cs_attrs = [(''inline'', PyBool True)],
                             cs_choices = [(PyInt 1, PyStr ''One'')]\<rparr>)
                 (Some [(''id'', PyStr ''t'')]) [])
              (Some [(''id'', PyStr ''t'')]) 1)
           (PyStr ''tags'') (force_text (PyStr ''2''))
           (py_str (force_text (PyStr ''2'')) \<in> selected_texts (Some [PyInt 2])))
   \<and> \<not> rendered_checked
        (checkbox_input_attrs
           (option_attrs
              (build_attrs
                 (cs_attrs \<lparr>cs_attrs = [(''inline'', PyBool True)],
                             cs_choices = [(PyInt 1, PyStr ''One'')]\<rparr>)
                 (Some [(''id'', PyStr ''t'')]) [])
              (Some [(''id'', PyStr ''t'')]) 0)
           (PyStr ''tags'') (force_text (PyInt 1))
           (py_str (force_text (PyInt 1)) \<in> selected_texts (Some [PyInt 2])))
   \<and> AdminCheckboxSelect_render
        \<lparr>cs_attrs = [(''inline'', PyBool True)], cs_choices = [(PyInt 1, PyStr ''One'')]\<rparr>
        (PyStr ''tags'') (Some [PyInt 2]) (Some [(''id'', PyStr ''t'')])
        [(PyStr ''2'', PyStr ''A&B'')]
      = Inr (SafeText
          (''<label for="t_0" class="checkbox-inline"><input id="t_0" name="tags" type="checkbox" value="1" inline /> One</label>''
           @ [CHR 0x0A]
           @ ''<label for="t_1" class="checkbox-inline"><input checked="checked" id="t_1" name="tags" type="checkbox" value="2" inline /> A&amp;B</label>''))\<close>
  (is "map_of (build_attrs (cs_attrs ?W) ?a []) ''checked'' = None
       \<and> rendered_checked ?i2 \<and> \<not> rendered_checked ?i1
       \<and> AdminCheckboxSelect_render ?W ?n ?v ?a ?c = ?out")
proof -
  have h: "map_of (build_attrs (cs_attrs ?W) ?a []) ''checked'' = None"
    by code_simp
  have m2: "py_str (force_text (PyStr ''2'')) \<in> selected_texts ?v"
    by code_simp
  have m1: "py_str (force_text (PyInt 1)) \<notin> selected_texts ?v"
    by code_simp
  have v: "Inr (SafeText (str_join [CHR 0x0A]
         (map (labelled_checkbox (build_attrs (cs_attrs ?W) ?a []) ?a ?n (selected_texts ?v))
            (zip [0 ..< length (cs_choices ?W @ ?c)] (cs_choices ?W @ ?c))))) = ?out"
    by code_simp
  have r: "AdminCheckboxSelect_render ?W ?n ?v ?a ?c = ?out"
    by (rule trans [OF conjunct1 [OF checkbox_select_renders_each_option] v])
  from checkbox_select_renders_each_option [of ?W ?n ?v ?a ?c 1 "PyStr ''2''"] h m2
  have c2: "rendered_checked ?i2" by blast
  from checkbox_select_renders_each_option [of ?W ?n ?v ?a ?c 0 "PyInt 1"] h m1
  have c1: "\<not> rendered_checked ?i1" by blast
  from h c2 c1 r show ?thesis by (intro conjI)
qed

text \<open>
  The claim as it is written fails when the effective attrs have a \<open>checked\<close> entry:
  with the attrs \<open>{'checked': 'checked'}\<close> and the selected values \<open>[5]\<close>, the checkbox
  of the option \<open>1\<close> is rendered checked although \<open>1\<close> is not selected.
\<close>

theorem checkbox_checked_through_attrs:
  \<open>AdminCheckboxSelect_render
      \<lparr>cs_attrs = [], cs_choices = [(PyInt 1, PyStr ''One'')]\<rparr>
      (PyStr ''tags'') (Some [PyInt 5]) (Some [(''checked'', PyStr ''checked'')]) []
    = Inr (SafeText
        ''<div class="checkbox"><label><input checked="checked" name="tags" type="checkbox" value="1" /> One</label></div>'')
   \<and> py_str (force_text (PyInt 1)) \<notin> selected_texts (Some [PyInt 5])
   \<and> rendered_checked
        (checkbox_input_attrs
           (option_attrs (build_attrs [] (Some [(''checked'', PyStr ''checked'')]) [])
              (Some [(''checked'', PyStr ''checked'')]) 0)
           (PyStr ''tags'') (force_text (PyInt 1))
           (py_str (force_text (PyInt 1)) \<in> selected_texts (Some [PyInt 5])))\<close>
  by code_simp



text \<open>
  C5. In the markup that \<open>AdminRadioInput.render\<close> returns and in every fragment of
  \<open>AdminCheckboxSelect.render\<close>, the label stands, after a space and before the closing
  \<open></label>\<close>, as \<open>conditional_escape\<close> of its text: a label marked safe as it is, any
  other label with \<open>&\<close>, \<open><\<close>, \<open>>\<close> and the two quotes replaced by their entities,
  so that none of \<open><\<close>, \<open>>\<close> and the quotes is left in it. The label of an input is the
  text of the choice's second component. The whole result is marked safe.
\<close>

theorem choice_labels_are_escaped:
  \<open>class_is_text (cells h (effective_attrs w attrs_arg h)) \<Longrightarrow>
     (\<exists>before after.
        fst (AdminRadioInput_render w attrs_arg h)
          = Inr (SafeText (before @ '' '' @ label_html (choice_label w) @ ''</label>'' @ after)))
   \<and> choice_label (RadioChoiceInput_init cls n v a choice idx) = force_text (snd choice)
   \<and> AdminCheckboxSelect_render self name val attrs choices
       = Inr (SafeText (str_join [CHR 0x0A]
           (map (labelled_checkbox (build_attrs (cs_attrs self) attrs []) attrs name
                   (selected_texts val))
              (enumerate 0 (cs_choices self @ choices)))))
   \<and> (\<exists>before after.
        labelled_checkbox (build_attrs (cs_attrs self) attrs []) attrs name (selected_texts val)
          (i, option_value, option_label)
          = before @ '' '' @ label_html option_label @ ''</label>'' @ after)
   \<and> label_html (force_text l) = label_html l
   \<and> label_html l = (if is_safe l then py_str l else concat (map escape_char (py_str l)))
   \<and> (is_safe l \<or> set (label_html l) \<inter> {CHR ''<'', CHR ''>'', CHR 0x22, CHR 0x27} = {})\<close>
proof -
  assume c: "class_is_text (cells h (effective_attrs w attrs_arg h))"
  from AdminRadioInput_render_layout [OF c] obtain t where
    t: "fst (AdminRadioInput_render w attrs_arg h) = Inr (SafeText
       (if truthy (dict_get (cells h (effective_attrs w attrs_arg h)) ''inline'' (PyBool False))
        then inline_radio (radio_label_for (cells h (in_attrs w)) (in_index w)) t
               (label_html (choice_label w))
        else block_radio (radio_label_for (cells h (in_attrs w)) (in_index w)) t
               (label_html (choice_label w))))"
    by blast
  have r: \<open>\<exists>before after.
        fst (AdminRadioInput_render w attrs_arg h)
          = Inr (SafeText (before @ '' '' @ label_html (choice_label w) @ ''</label>'' @ after))\<close>
  proof (cases "truthy (dict_get (cells h (effective_attrs w attrs_arg h)) ''inline'' (PyBool False))")
    case True
    show ?thesis
      by (intro exI [of _ \<open>''<label'' @ radio_label_for (cells h (in_attrs w)) (in_index w)
              @ '' class="radio-inline">'' @ t\<close>] exI [of _ "[]"])
        (simp add: t True inline_radio_def)
  next
    case False
    show ?thesis
      by (intro exI [of _ \<open>''<div class="radio"><label''
              @ radio_label_for (cells h (in_attrs w)) (in_index w) @ ''>'' @ t\<close>]
            exI [of _ "''</div>''"])
        (simp add: t False block_radio_def)
  qed
  from labelled_checkbox_layout [of "build_attrs (cs_attrs self) attrs []" attrs name
      "selected_texts val" i option_value option_label]
  obtain d lf where
    k: "labelled_checkbox (build_attrs (cs_attrs self) attrs []) attrs name (selected_texts val)
          (i, option_value, option_label) =
       (if truthy (dict_get (build_attrs (cs_attrs self) attrs []) ''inline'' (PyBool False))
        then inline_checkbox lf
               (checkbox_input d name (force_text option_value)
                  (py_str (force_text option_value) \<in> selected_texts val)) (label_html option_label)
        else block_checkbox lf
               (checkbox_input d name (force_text option_value)
                  (py_str (force_text option_value) \<in> selected_texts val)) (label_html option_label))"
    by blast
  let ?cb = "checkbox_input d name (force_text option_value)
                  (py_str (force_text option_value) \<in> selected_texts val)"
  have b: \<open>\<exists>before after.
        labelled_checkbox (build_attrs (cs_attrs self) attrs []) attrs name (selected_texts val)
          (i, option_value, option_label)
          = before @ '' '' @ label_html option_label @ ''</label>'' @ after\<close>
  proof (cases "truthy (dict_get (build_attrs (cs_attrs self) attrs []) ''inline'' (PyBool False))")
    case True
    show ?thesis
      by (intro exI [of _ \<open>''<label'' @ lf @ '' class="checkbox-inline">'' @ ?cb\<close>]
            exI [of _ "[]"])
        (simp add: k True inline_checkbox_def)
  next
    case False
    show ?thesis
      by (intro exI [of _ \<open>''<div class="checkbox"><label'' @ lf @ ''>'' @ ?cb\<close>]
            exI [of _ "''</div>''"])
        (simp add: k False block_checkbox_def)
  qed
  have i: "choice_label (RadioChoiceInput_init cls n v a choice idx) = force_text (snd choice)"
    by (simp add: RadioChoiceInput_init_def ChoiceInput_init_def Let_def)
  have s: "is_safe l \<or> set (label_html l) \<inter> {CHR ''<'', CHR ''>'', CHR 0x22, CHR 0x27} = {}"
    using label_html_no_special [of l] by blast
  show ?thesis
    by (intro conjI r i AdminCheckboxSelect_render_eq b label_html_force_text label_html_cases s)
qed

theorem choice_labels_are_escaped_witness:
  \<open>class_is_text
     (cells \<lparr>cells = (\<lambda>a. [(''class'', PyStr ''form-control'')]), next_free = 1\<rparr>
        (effective_attrs
           (RadioChoiceInput_init AdminRadioInput (PyStr ''color'') (PyInt 2) 0
              (PyInt 1, PyStr ''<b>"R&D"</b>'') 0)
           None
           \<lparr>cells = (\<lambda>a. [(''class'', PyStr ''form-control'')]), next_free = 1\<rparr>))
   \<and> (\<exists>before after.
        fst (AdminRadioInput_render
               (RadioChoiceInput_init AdminRadioInput (PyStr ''color'') (PyInt 2) 0
                  (PyInt 1, PyStr ''<b>"R&D"</b>'') 0)
               None
               \<lparr>cells = (\<lambda>a. [(''class'', PyStr ''form-control'')]), next_free = 1\<rparr>)
          = Inr (SafeText (before @ '' &lt;b&gt;&quot;R&amp;D&quot;&lt;/b&gt;</label>'' @ after)))\<close>
  (is "class_is_text (cells ?H (effective_attrs ?W None ?H)) \<and> _")
proof -
  have c: "class_is_text (cells ?H (effective_attrs ?W None ?H))"
    by code_simp
  have e3: "label_html (choice_label ?W) = ''&lt;b&gt;&quot;R&amp;D&quot;&lt;/b&gt;''"
    by code_simp
  from conjunct1 [OF choice_labels_are_escaped [OF c]] obtain b a where
    \<open>fst (AdminRadioInput_render ?W None ?H)
          = Inr (SafeText (b @ '' '' @ label_html (choice_label ?W) @ ''</label>'' @ a))\<close>
    by blast
  then have \<open>fst (AdminRadioInput_render ?W None ?H)
      = Inr (SafeText (b @ '' &lt;b&gt;&quot;R&amp;D&quot;&lt;/b&gt;</label>'' @ a))\<close>
    unfolding e3 by simp
  then show ?thesis
    using c by blast
qed

text \<open>
  C10, as the code has it. For every name, attrs and choices,
  \<open>AdminCheckboxSelect.render\<close> with the value \<open>None\<close> returns what it returns with the
  empty list: the newline-join of the labelled checkboxes for no selected text at all.
  The widget sets \<open>checked\<close> on none of them: the \<open>checked\<close> entry of every checkbox is
  the one of the effective attrs (the widget's attrs updated with the attrs of the
  call), if they have one. So when the effective attrs have no \<open>checked\<close> entry, no
  checkbox is rendered checked.
\<close>

theorem checkbox_select_none_is_empty_list:
  \<open>AdminCheckboxSelect_render self name None attrs choices
     = AdminCheckboxSelect_render self name (Some []) attrs choices
   \<and> AdminCheckboxSelect_render self name None attrs choices
     = Inr (SafeText (str_join [CHR 0x0A]
         (map (labelled_checkbox (build_attrs (cs_attrs self) attrs []) attrs name {})
            (enumerate 0 (cs_choices self @ choices)))))
   \<and> labelled_checkbox (build_attrs (cs_attrs self) attrs []) attrs name {}
          (i, option_value, option_label) =
        (if truthy (dict_get (build_attrs (cs_attrs self) attrs []) ''inline'' (PyBool False))
         then inline_checkbox (option_label_for attrs i)
                (checkbox_input (option_attrs (build_attrs (cs_attrs self) attrs []) attrs i) name
                   (force_text option_value) False)
                (label_html option_label)
         else block_checkbox (option_label_for attrs i)
                (checkbox_input (option_attrs (build_attrs (cs_attrs self) attrs []) attrs i) name
                   (force_text option_value) False)
                (label_html option_label))
   \<and> map_of (checkbox_input_attrs (option_attrs (build_attrs (cs_attrs self) attrs []) attrs i)
               name (force_text option_value) False) ''checked''
       = map_of (build_attrs (cs_attrs self) attrs []) ''checked''
   \<and> (map_of (build_attrs (cs_attrs self) attrs []) ''checked'' = None \<longrightarrow>
        \<not> rendered_checked
            (checkbox_input_attrs (option_attrs (build_attrs (cs_attrs self) attrs []) attrs i)
               name (force_text option_value) False))\<close>
proof -
  have n: "AdminCheckboxSelect_render self name None attrs choices
     = Inr (SafeText (str_join [CHR 0x0A]
         (map (labelled_checkbox (build_attrs (cs_attrs self) attrs []) attrs name {})
            (enumerate 0 (cs_choices self @ choices)))))"
    using AdminCheckboxSelect_render_eq [of self name None attrs choices]
    by (simp add: selected_texts_def)
  have e: "AdminCheckboxSelect_render self name (Some []) attrs choices
     = Inr (SafeText (str_join [CHR 0x0A]
         (map (labelled_checkbox (build_attrs (cs_attrs self) attrs []) attrs name {})
            (enumerate 0 (cs_choices self @ choices)))))"
    using AdminCheckboxSelect_render_eq [of self name "Some []" attrs choices]
    by (simp add: selected_texts_def)
  have u: "labelled_checkbox (build_attrs (cs_attrs self) attrs []) attrs name {}
          (i, option_value, option_label) =
        (if truthy (dict_get (build_attrs (cs_attrs self) attrs []) ''inline'' (PyBool False))
         then inline_checkbox (option_label_for attrs i)
                (checkbox_input (option_attrs (build_attrs (cs_attrs self) attrs []) attrs i) name
                   (force_text option_value) False)
                (label_html option_label)
         else block_checkbox (option_label_for attrs i)
                (checkbox_input (option_attrs (build_attrs (cs_attrs self) attrs []) attrs i) name
                   (force_text option_value) False)
                (label_html option_label))"
    using labelled_checkbox_explicit [of "build_attrs (cs_attrs self) attrs []" attrs name
      "{}" i option_value option_label]
    by (simp only: empty_iff)
  have c: "map_of (checkbox_input_attrs (option_attrs (build_attrs (cs_attrs self) attrs []) attrs i)
               name (force_text option_value) False) ''checked''
       = map_of (build_attrs (cs_attrs self) attrs []) ''checked''"
    by (simp add: option_checked_entry)
  have k: "map_of (build_attrs (cs_attrs self) attrs []) ''checked'' = None \<longrightarrow>
        \<not> rendered_checked
            (checkbox_input_attrs (option_attrs (build_attrs (cs_attrs self) attrs []) attrs i)
               name (force_text option_value) False)"
    by (simp add: option_rendered_checked)
  show ?thesis
    by (intro conjI trans [OF n e [symmetric]] n u c k)
qed

theorem checkbox_select_none_is_empty_list_witness:
  \<open>map_of (build_attrs (cs_attrs \<lparr>cs_attrs = [], cs_choices = [(PyInt 1, PyStr ''One'')]\<rparr>)
             None []) ''checked'' = None
   \<and> \<not> rendered_checked
        (checkbox_input_attrs
           (option_attrs
              (build_attrs (cs_attrs \<lparr>cs_attrs = [], cs_choices = [(PyInt 1, PyStr ''One'')]\<rparr>)
                 None [])
              None 0)
           (PyStr ''tags'') (force_text (PyInt 1)) False)
   \<and> AdminCheckboxSelect_render
        \<lparr>cs_attrs = [], cs_choices = [(PyInt 1, PyStr ''One'')]\<rparr>
        (PyStr ''tags'') (Some []) None [(PyStr ''2'', PyStr ''Two'')]
      = Inr (SafeText
          (''<div class="checkbox"><label><input name="tags" type="checkbox" value="1" /> One</label></div>''
           @ [CHR 0x0A]
           @ ''<div class="checkbox"><label><input name="tags" type="checkbox" value="2" /> Two</label></div>''))\<close>
  (is "map_of (build_attrs (cs_attrs ?W) ?a []) ''checked'' = None
       \<and> \<not> rendered_checked ?i1
       \<and> AdminCheckboxSelect_render ?W ?n (Some []) ?a ?c = ?out")
proof -
  have h: "map_of (build_attrs (cs_attrs ?W) ?a []) ''checked'' = None"
    by code_simp
  have v: "Inr (SafeText (str_join [CHR 0x0A]
         (map (labelled_checkbox (build_attrs (cs_attrs ?W) ?a []) ?a ?n {})
            (enumerate 0 (cs_choices ?W @ ?c))))) = ?out"
    by code_simp
  note t = checkbox_select_none_is_empty_list [of ?W ?n ?a ?c 0 "PyInt 1"]
  have r: "AdminCheckboxSelect_render ?W ?n (Some []) ?a ?c = ?out"
    by (rule trans [OF sym [OF conjunct1 [OF t]] trans [OF conjunct1 [OF conjunct2 [OF t]] v]])
  from t h have c1: "\<not> rendered_checked ?i1" by blast
  from h c1 r show ?thesis by (intro conjI)
qed

text \<open>
  The claim as it is written fails when the effective attrs have a \<open>checked\<close> entry:
  a widget whose attrs are \<open>{'checked': 'checked'}\<close> renders its checkbox checked for
  the value \<open>None\<close>.
\<close>

theorem checkbox_none_checked_through_attrs:
  \<open>AdminCheckboxSelect_render
      \<lparr>cs_attrs = [(''checked'', PyStr ''checked'')], cs_choices = [(PyInt 1, PyStr ''One'')]\<rparr>
      (PyStr ''tags'') None None []
    = Inr (SafeText
        ''<div class="checkbox"><label><input checked="checked" name="tags" type="checkbox" value="1" /> One</label></div>'')
   \<and> rendered_checked
        (checkbox_input_attrs
           (option_attrs (build_attrs [(''checked'', PyStr ''checked'')] None []) None 0)
           (PyStr ''tags'') (force_text (PyInt 1))
           (py_str (force_text (PyInt 1)) \<in> selected_texts None))\<close>
  by code_simp

end
